theory Spec2Isabelle
  imports Complex_Main
begin

section \<open>Data model of \<^verbatim>\<open>exam.py\<close>\<close>

text \<open>
  Amounts and remote payloads are Python numbers: a finite number (an \<open>int\<close> or a finite
  \<open>float\<close>, here an exact rational), one of the two infinities, or \<open>NaN\<close>. The comparisons
  are Python's: every comparison with \<open>NaN\<close> is false. The field names \<open>id\<close> and \<open>type\<close>
  of the source are written \<open>id'\<close> and \<open>type'\<close>.
\<close>

datatype num = Fin rat | PInf | NInf | NaN

fun py_lt :: "num \<Rightarrow> num \<Rightarrow> bool" where
  "py_lt (Fin a) (Fin b) = (a < b)"
| "py_lt (Fin a) PInf = True"
| "py_lt NInf (Fin b) = True"
| "py_lt NInf PInf = True"
| "py_lt x y = False"

fun py_le :: "num \<Rightarrow> num \<Rightarrow> bool" where
  "py_le (Fin a) (Fin b) = (a \<le> b)"
| "py_le (Fin a) PInf = True"
| "py_le NInf (Fin b) = True"
| "py_le NInf PInf = True"
| "py_le NInf NInf = True"
| "py_le PInf PInf = True"
| "py_le x y = False"

definition py_gt :: "num \<Rightarrow> num \<Rightarrow> bool" where
  "py_gt x y = py_lt y x"

definition py_ge :: "num \<Rightarrow> num \<Rightarrow> bool" where
  "py_ge x y = py_le y x"

record Order =
  id' :: int
  type' :: string
  amount :: num
  flag :: bool
  status :: string
  priority :: string

text \<open>\<^verbatim>\<open>Order.__init__\<close>: status and priority start at \<open>'new'\<close> and \<open>'low'\<close>.\<close>

definition Order_init :: "int \<Rightarrow> string \<Rightarrow> num \<Rightarrow> bool \<Rightarrow> Order" where
  "Order_init i t a f =
     \<lparr>id' = i, type' = t, amount = a, flag = f, status = ''new'', priority = ''low''\<rparr>"

text \<open>\<^verbatim>\<open>APIResponse\<close>: \<open>data\<close> is \<open>Any\<close> in the source; the tests pass a number or \<open>None\<close>.\<close>

datatype APIResponse = APIResponse (api_status: string) (api_data: "num option")

text \<open>
  Exception classes, all subclasses of \<open>Exception\<close>. \<open>IOError\<close> stands for \<open>OSError\<close>
  and its subclasses, \<open>TypeError\<close> is what comparing \<open>None\<close> with a number raises, and
  \<open>OtherException\<close> is any class that none of the handlers of the source names.
\<close>

datatype exn = IOError | APIException | DatabaseException | TypeError | OtherException

text \<open>A row handed to \<open>csv.writer.writerow\<close>: the Python values before serialisation.\<close>

datatype cell = CInt int | CNum num | CStr string

type_synonym row = "cell list"

datatype io_op = Open string | Write string row | Close string

text \<open>Calls made to the collaborators, each with the exception it raised, if any.\<close>

datatype call =
    Get_orders_by_user int
  | Update_order_status int string string
  | Call_api int
  | File_op io_op

type_synonym event = "call \<times> exn option"

text \<open>Orders are objects: the list the repository returns holds references into a heap.\<close>

type_synonym ref = nat

text \<open>
  The collaborators. \<open>DatabaseService\<close> and \<open>APIClient\<close> are abstract classes, so their
  methods are arbitrary functions of a state \<open>'e\<close> of their own; each returns the raised
  exception (\<open>Inl\<close>) or its result. \<open>time_time\<close> is the clock and \<open>io_fault\<close> decides
  whether a file operation raises.
\<close>

record 'e services =
  db_get_orders_by_user :: "int \<Rightarrow> 'e \<Rightarrow> (exn + ref list) \<times> 'e"
  db_update_order_status :: "int \<Rightarrow> string \<Rightarrow> string \<Rightarrow> 'e \<Rightarrow> (exn + bool) \<times> 'e"
  api_call_api :: "int \<Rightarrow> 'e \<Rightarrow> (exn + APIResponse) \<times> 'e"
  time_time :: "'e \<Rightarrow> rat \<times> 'e"
  io_fault :: "io_op \<Rightarrow> 'e \<Rightarrow> exn option \<times> 'e"

record 'e world =
  heap :: "ref \<Rightarrow> Order"
  files :: "string \<Rightarrow> row list option"
  ext :: 'e
  calls :: "event list"

text \<open>A statement either completes (\<open>None\<close>) or raises (\<open>Some x\<close>), and leaves a world.\<close>

type_synonym 'e stmt = "'e world \<Rightarrow> exn option \<times> 'e world"

section \<open>Statements\<close>

definition skip :: "'e stmt" where
  "skip w = (None, w)"

definition seq :: "'e stmt \<Rightarrow> 'e stmt \<Rightarrow> 'e stmt" where
  "seq f g w = (case f w of (None, w') \<Rightarrow> g w' | (Some x, w') \<Rightarrow> (Some x, w'))"

text \<open>\<^verbatim>\<open>try: f  except C: h\<close>, where \<open>catches\<close> says which classes \<open>C\<close> matches.\<close>

definition try_except :: "'e stmt \<Rightarrow> (exn \<Rightarrow> bool) \<Rightarrow> 'e stmt \<Rightarrow> 'e stmt" where
  "try_except f catches h w =
     (case f w of
        (None, w') \<Rightarrow> (None, w')
      | (Some x, w') \<Rightarrow> if catches x then h w' else (Some x, w'))"

text \<open>\<^verbatim>\<open>order.status = s\<close> and \<^verbatim>\<open>order.priority = p\<close> on the object at \<open>a\<close>.\<close>

definition set_status :: "ref \<Rightarrow> string \<Rightarrow> 'e stmt" where
  "set_status a s w = (None, w\<lparr>heap := (heap w)(a := (heap w a)\<lparr>status := s\<rparr>)\<rparr>)"

definition set_priority :: "ref \<Rightarrow> string \<Rightarrow> 'e stmt" where
  "set_priority a p w = (None, w\<lparr>heap := (heap w)(a := (heap w a)\<lparr>priority := p\<rparr>)\<rparr>)"

text \<open>A call of a collaborator: its state advances and the call is logged.\<close>

definition invoke :: "call \<Rightarrow> ('e \<Rightarrow> (exn + 'a) \<times> 'e) \<Rightarrow> 'e world \<Rightarrow> (exn + 'a) \<times> 'e world" where
  "invoke c f w =
     (case f (ext w) of
        (r, e') \<Rightarrow>
          (r, w\<lparr>ext := e',
                calls := calls w @ [(c, case r of Inl x \<Rightarrow> Some x | Inr _ \<Rightarrow> None)]\<rparr>))"

section \<open>Files\<close>

fun io_effect :: "io_op \<Rightarrow> (string \<Rightarrow> row list option) \<Rightarrow> (string \<Rightarrow> row list option)" where
  "io_effect (Open n) fs = fs(n \<mapsto> [])"
| "io_effect (Write n r) fs = fs(n \<mapsto> (case fs n of None \<Rightarrow> [] | Some rs \<Rightarrow> rs) @ [r])"
| "io_effect (Close n) fs = fs"

text \<open>A file operation raises what \<open>io_fault\<close> says, or takes effect.\<close>

definition file_op :: "'e services \<Rightarrow> io_op \<Rightarrow> 'e stmt" where
  "file_op svc op w =
     (case io_fault svc op (ext w) of
        (r, e') \<Rightarrow>
          (r, w\<lparr>files := (if r = None then io_effect op (files w) else files w),
                ext := e',
                calls := calls w @ [(File_op op, r)]\<rparr>))"

text \<open>
  \<^verbatim>\<open>with open(name, 'w', newline='') as file_handle: body\<close>. The handle is closed on
  both ways out of the body; an exception raised by that close replaces a pending one.
\<close>

definition with_open :: "'e services \<Rightarrow> string \<Rightarrow> 'e stmt \<Rightarrow> 'e stmt" where
  "with_open svc name body w =
     (case file_op svc (Open name) w of
        (Some x, w1) \<Rightarrow> (Some x, w1)
      | (None, w1) \<Rightarrow>
          (case body w1 of
             (None, w2) \<Rightarrow> file_op svc (Close name) w2
           | (Some x, w2) \<Rightarrow>
               (case file_op svc (Close name) w2 of
                  (None, w3) \<Rightarrow> (Some x, w3)
                | (Some y, w3) \<Rightarrow> (Some y, w3))))"

section \<open>Strings\<close>

text \<open>\<open>str\<close> of a Python integer.\<close>

function str_nat :: "nat \<Rightarrow> string" where
  "str_nat n =
     (if n < 10 then [''0123456789'' ! n]
      else str_nat (n div 10) @ [''0123456789'' ! (n mod 10)])"
  by pat_completeness auto
termination
  by (relation "measure (\<lambda>n. n)") auto

declare str_nat.simps [simp del]

definition str_int :: "int \<Rightarrow> string" where
  "str_int i = (if i < 0 then ''-'' @ str_nat (nat (- i)) else str_nat (nat i))"

text \<open>\<open>int\<close> of a Python float truncates towards zero.\<close>

definition py_int :: "rat \<Rightarrow> int" where
  "py_int r = (if 0 \<le> r then \<lfloor>r\<rfloor> else \<lceil>r\<rceil>)"

text \<open>\<open>str\<close> of a Python \<open>bool\<close>, and \<open>str.lower\<close> on ASCII letters.\<close>

definition str_bool :: "bool \<Rightarrow> string" where
  "str_bool b = (if b then ''True'' else ''False'')"

definition lower_char :: "char \<Rightarrow> char" where
  "lower_char c =
     (case map_of (zip ''ABCDEFGHIJKLMNOPQRSTUVWXYZ'' ''abcdefghijklmnopqrstuvwxyz'') c of
        Some l \<Rightarrow> l
      | None \<Rightarrow> c)"

definition lower :: "string \<Rightarrow> string" where
  "lower s = map lower_char s"

section \<open>\<^verbatim>\<open>OrderProcessingService\<close>\<close>

text \<open>
  The methods keep their names without the leading underscore; the methods of the two
  abstract classes are the fields \<open>db_\<close> and \<open>api_\<close> of \<open>services\<close>.
\<close>

definition header_row :: row where
  "header_row =
     [CStr ''ID'', CStr ''Type'', CStr ''Amount'', CStr ''Flag'', CStr ''Status'', CStr ''Priority'']"

definition data_row :: "Order \<Rightarrow> row" where
  "data_row order =
     [CInt (id' order), CStr (type' order), CNum (amount order),
      CStr (lower (str_bool (flag order))), CStr (status order), CStr (priority order)]"

definition note_row :: row where
  "note_row = [CStr [], CStr [], CStr [], CStr [], CStr ''Note'', CStr ''High value order'']"

definition csv_name :: "int \<Rightarrow> rat \<Rightarrow> string" where
  "csv_name user_id t = ''orders_type_A_'' @ str_int user_id @ ''_'' @ str_int (py_int t) @ ''.csv''"

text \<open>The body of the \<^verbatim>\<open>with\<close> block of \<^verbatim>\<open>_process_type_a_order\<close>.\<close>

definition write_rows :: "'e services \<Rightarrow> string \<Rightarrow> ref \<Rightarrow> 'e stmt" where
  "write_rows svc csv_file a =
     seq (file_op svc (Write csv_file header_row))
    (seq (\<lambda>w. file_op svc (Write csv_file (data_row (heap w a))) w)
         (\<lambda>w. if py_gt (amount (heap w a)) (Fin 150)
              then file_op svc (Write csv_file note_row) w
              else skip w))"

definition process_type_a_order :: "'e services \<Rightarrow> ref \<Rightarrow> int \<Rightarrow> 'e stmt" where
  "process_type_a_order svc a user_id w =
     (case time_time svc (ext w) of
        (t, e') \<Rightarrow>
          try_except
            (seq (with_open svc (csv_name user_id t) (write_rows svc (csv_name user_id t) a))
                 (set_status a ''exported''))
            (\<lambda>x. x = IOError)
            (set_status a ''export_failed'')
            (w\<lparr>ext := e'\<rparr>))"

text \<open>
  The comparisons of \<^verbatim>\<open>_process_type_b_order\<close>: \<open>api_response.data >= 50\<close> is evaluated
  first in both conditions, and raises \<open>TypeError\<close> when \<open>data\<close> is \<open>None\<close>.
\<close>

definition type_b_status :: "ref \<Rightarrow> APIResponse \<Rightarrow> 'e stmt" where
  "type_b_status a api_response w =
     (if api_status api_response = ''success'' then
        (case api_data api_response of
           None \<Rightarrow> (Some TypeError, w)
         | Some d \<Rightarrow>
             if py_ge d (Fin 50) \<and> py_lt (amount (heap w a)) (Fin 100)
             then set_status a ''processed'' w
             else if py_lt d (Fin 50) \<or> flag (heap w a) then set_status a ''pending'' w
             else set_status a ''error'' w)
      else set_status a ''api_error'' w)"

definition process_type_b_order :: "'e services \<Rightarrow> ref \<Rightarrow> 'e stmt" where
  "process_type_b_order svc a =
     try_except
       (\<lambda>w. case invoke (Call_api (id' (heap w a))) (api_call_api svc (id' (heap w a))) w of
               (Inl x, w') \<Rightarrow> (Some x, w')
             | (Inr api_response, w') \<Rightarrow> type_b_status a api_response w')
       (\<lambda>x. x = APIException)
       (set_status a ''api_failure'')"

definition process_type_c_order :: "ref \<Rightarrow> 'e stmt" where
  "process_type_c_order a w =
     (if flag (heap w a) then set_status a ''completed'' w
      else set_status a ''in_progress'' w)"

definition set_order_priority :: "ref \<Rightarrow> 'e stmt" where
  "set_order_priority a w =
     (if py_gt (amount (heap w a)) (Fin 200) then set_priority a ''high'' w
      else set_priority a ''low'' w)"

text \<open>The boolean that \<open>update_order_status\<close> returns is dropped.\<close>

definition update_order_status :: "'e services \<Rightarrow> ref \<Rightarrow> 'e stmt" where
  "update_order_status svc a =
     try_except
       (\<lambda>w. case invoke
                   (Update_order_status (id' (heap w a)) (status (heap w a)) (priority (heap w a)))
                   (db_update_order_status svc
                      (id' (heap w a)) (status (heap w a)) (priority (heap w a))) w of
               (Inl x, w') \<Rightarrow> (Some x, w')
             | (Inr _, w') \<Rightarrow> (None, w'))
       (\<lambda>x. x = DatabaseException)
       (set_status a ''db_error'')"

definition process_order :: "'e services \<Rightarrow> ref \<Rightarrow> int \<Rightarrow> 'e stmt" where
  "process_order svc a user_id =
     seq (\<lambda>w. if type' (heap w a) = ''A'' then process_type_a_order svc a user_id w
              else if type' (heap w a) = ''B'' then process_type_b_order svc a w
              else if type' (heap w a) = ''C'' then process_type_c_order a w
              else set_status a ''unknown_type'' w)
    (seq (set_order_priority a)
         (update_order_status svc a))"

text \<open>The loop \<^verbatim>\<open>for order in orders\<close>: an exception ends it.\<close>

fun for_orders :: "'e services \<Rightarrow> int \<Rightarrow> ref list \<Rightarrow> 'e stmt" where
  "for_orders svc user_id [] w = (None, w)"
| "for_orders svc user_id (a # orders) w =
     (case process_order svc a user_id w of
        (None, w') \<Rightarrow> for_orders svc user_id orders w'
      | (Some x, w') \<Rightarrow> (Some x, w'))"

text \<open>
  \<^verbatim>\<open>process_orders\<close>: every class of \<open>exn\<close> is an \<open>Exception\<close>, so the outer handler
  catches whatever the fetch or the loop raises and returns \<open>False\<close>.
\<close>

definition process_orders :: "'e services \<Rightarrow> int \<Rightarrow> 'e world \<Rightarrow> bool \<times> 'e world" where
  "process_orders svc user_id w =
     (case invoke (Get_orders_by_user user_id) (db_get_orders_by_user svc user_id) w of
        (Inl x, w') \<Rightarrow> (False, w')
      | (Inr orders, w') \<Rightarrow>
          if orders = [] then (False, w')
          else (case for_orders svc user_id orders w' of
                  (None, w'') \<Rightarrow> (True, w'')
                | (Some x, w'') \<Rightarrow> (False, w'')))"

section \<open>The file operations of an export, as a list\<close>

text \<open>
  The \<^verbatim>\<open>with\<close> body of \<open>process_type_a_order\<close> runs two or three writes and stops at
  the first that raises; \<open>run_ops\<close> is that run, used to reason about what is logged.
\<close>

fun run_ops :: "'e services \<Rightarrow> io_op list \<Rightarrow> 'e stmt" where
  "run_ops svc [] w = (None, w)"
| "run_ops svc (op # ops) w =
     (case file_op svc op w of
        (None, w') \<Rightarrow> run_ops svc ops w'
      | (Some x, w') \<Rightarrow> (Some x, w'))"

definition export_ops :: "string \<Rightarrow> Order \<Rightarrow> io_op list" where
  "export_ops n order =
     [Write n header_row, Write n (data_row order)] @
     (if py_gt (amount order) (Fin 150) then [Write n note_row] else [])"

section \<open>Vocabulary of the claims\<close>

text \<open>The order ids of the \<open>update_order_status\<close> calls of a log, in call order.\<close>

fun update_ids :: "event list \<Rightarrow> int list" where
  "update_ids [] = []"
| "update_ids ((Update_order_status i s p, r) # es) = i # update_ids es"
| "update_ids (c # es) = update_ids es"

text \<open>The status values the pipeline can leave behind.\<close>

definition terminal_statuses :: "string set" where
  "terminal_statuses =
     {''exported'', ''export_failed'', ''processed'', ''pending'', ''error'', ''api_error'',
      ''api_failure'', ''completed'', ''in_progress'', ''unknown_type'', ''db_error''}"

text \<open>
  The collaborators raise only what the handler around the call catches: a file operation
  \<open>IOError\<close>, the remote call \<open>APIException\<close>, the status update \<open>DatabaseException\<close>;
  and a \<open>success\<close> response carries a number.
\<close>

definition classified :: "'e services \<Rightarrow> bool" where
  "classified svc \<longleftrightarrow>
     (\<forall>op e x. fst (io_fault svc op e) = Some x \<longrightarrow> x = IOError) \<and>
     (\<forall>i e x. fst (api_call_api svc i e) = Inl x \<longrightarrow> x = APIException) \<and>
     (\<forall>i e resp. fst (api_call_api svc i e) = Inr resp \<longrightarrow>
        api_status resp = ''success'' \<longrightarrow> api_data resp \<noteq> None) \<and>
     (\<forall>i s p e x. fst (db_update_order_status svc i s p e) = Inl x \<longrightarrow> x = DatabaseException)"

text \<open>
  What a type stage does: it logs no status update, and on completion it has set a
  terminal status.
\<close>

definition stage_ok :: "'e services \<Rightarrow> ref \<Rightarrow> 'e stmt \<Rightarrow> bool" where
  "stage_ok svc a T \<longleftrightarrow>
     (\<forall>w r w1. T w = (r, w1) \<longrightarrow>
        (\<exists>cs st. calls w1 = calls w @ cs \<and> update_ids cs = []
           \<and> heap w1 = (if r = None then (heap w)(a := (heap w a)\<lparr>status := st\<rparr>) else heap w)
           \<and> st \<in> terminal_statuses - {''db_error''}
           \<and> (classified svc \<longrightarrow> r = None)))"

text \<open>Two heaps agree on the fields the constructor of \<open>Order\<close> takes.\<close>

definition same_fields :: "(ref \<Rightarrow> Order) \<Rightarrow> (ref \<Rightarrow> Order) \<Rightarrow> bool" where
  "same_fields h h' \<longleftrightarrow>
     (\<forall>b. id' (h' b) = id' (h b) \<and> type' (h' b) = type' (h b)
          \<and> amount (h' b) = amount (h b) \<and> flag (h' b) = flag (h b))"

text \<open>
  Every export fails with \<open>IOError\<close>, at the open or at the first write; and the status
  update never raises.
\<close>

definition export_always_fails :: "'e services \<Rightarrow> bool" where
  "export_always_fails svc \<longleftrightarrow>
     (\<forall>n e. fst (io_fault svc (Open n) e) = Some IOError) \<or>
     (\<forall>n row e. fst (io_fault svc (Write n row) e) = Some IOError)"

definition update_never_raises :: "'e services \<Rightarrow> bool" where
  "update_never_raises svc \<longleftrightarrow>
     (\<forall>i s p e x. fst (db_update_order_status svc i s p e) \<noteq> Inl x)"

section \<open>Test doubles\<close>

text \<open>
  Stateless doubles in the manner of \<^verbatim>\<open>test_exam.py\<close>: each collaborator answers every
  call with the outcome it is given, and the clock stands still.
\<close>

definition demo_services ::
  "(exn + ref list) \<Rightarrow> (exn + APIResponse) \<Rightarrow> (exn + bool) \<Rightarrow> (io_op \<Rightarrow> exn option)
     \<Rightarrow> unit services" where
  "demo_services fetch_out api_out db_out io_out =
     \<lparr>db_get_orders_by_user = (\<lambda>user_id e. (fetch_out, e)),
      db_update_order_status = (\<lambda>order_id s p e. (db_out, e)),
      api_call_api = (\<lambda>order_id e. (api_out, e)),
      time_time = (\<lambda>e. (1700000000, e)),
      io_fault = (\<lambda>op e. (io_out op, e))\<rparr>"

definition demo_heap :: "ref \<Rightarrow> Order" where
  "demo_heap a =
     (if a = 1 then Order_init 1 ''A'' (Fin 250) False
      else if a = 2 then Order_init 2 ''B'' (Fin 50) False
      else if a = 3 then Order_init 3 ''C'' (Fin 50) True
      else if a = 4 then Order_init 4 ''B'' (Fin 150) False
      else Order_init (int a) ''X'' (Fin 200) False)"

definition demo_world :: "unit world" where
  "demo_world = \<lparr>heap = demo_heap, files = Map.empty, ext = (), calls = []\<rparr>"

section \<open>Basic facts\<close>

lemma file_op_heap [simp]: "heap (snd (file_op svc op w)) = heap w"
  by (simp add: file_op_def split: prod.splits)

lemma file_op_result:
  assumes "file_op svc op w = (r, w')"
  shows "heap w' = heap w"
    and "calls w' = calls w @ [(File_op op, r)]"
    and "files w' = (if r = None then io_effect op (files w) else files w)"
    and "r = fst (io_fault svc op (ext w))"
  using assms by (auto simp: file_op_def split: prod.splits)

lemma run_ops_heap: "heap (snd (run_ops svc ops w)) = heap w"
proof (induction ops arbitrary: w)
  case Nil
  show ?case by simp
next
  case (Cons op ops)
  obtain r w1 where f: "file_op svc op w = (r, w1)" by (cases "file_op svc op w")
  have h: "heap w1 = heap w" using file_op_result(1)[OF f] .
  show ?case
  proof (cases r)
    case None
    then show ?thesis using f h Cons.IH[of w1] by simp
  next
    case (Some x)
    then show ?thesis using f h by simp
  qed
qed

lemma write_rows_run_ops:
  "write_rows svc n a w = run_ops svc (export_ops n (heap w a)) w"
proof -
  obtain r1 w1 where f1: "file_op svc (Write n header_row) w = (r1, w1)"
    by (cases "file_op svc (Write n header_row) w")
  have h1: "heap w1 = heap w" using file_op_result(1)[OF f1] .
  obtain r2 w2 where f2: "file_op svc (Write n (data_row (heap w a))) w1 = (r2, w2)"
    by (cases "file_op svc (Write n (data_row (heap w a))) w1")
  have h2: "heap w2 = heap w" using file_op_result(1)[OF f2] h1 by simp
  show ?thesis
  proof (cases r1)
    case (Some x)
    then show ?thesis using f1 by (simp add: write_rows_def seq_def export_ops_def)
  next
    case None
    note n1 = this
    show ?thesis
    proof (cases r2)
      case (Some x)
      then show ?thesis using f1 n1 f2 h1
        by (simp add: write_rows_def seq_def export_ops_def)
    next
      case None
      then show ?thesis using f1 n1 f2 h1 h2
        by (simp add: write_rows_def seq_def export_ops_def skip_def split: prod.splits option.splits)
    qed
  qed
qed

text \<open>What a run of file operations logs.\<close>

lemma run_ops_log:
  assumes "run_ops svc ops w = (r, w')"
  shows "\<exists>cs. calls w' = calls w @ cs
           \<and> (\<forall>c\<in>set cs. \<exists>op e. c = (File_op op, fst (io_fault svc op e)))
           \<and> (r = None \<longleftrightarrow> (\<forall>c\<in>set cs. snd c = None))
           \<and> (\<forall>x. r = Some x \<longrightarrow> Some x \<in> snd ` set cs)
           \<and> (r = None \<longrightarrow> files w' = fold io_effect ops (files w))"
  using assms
proof (induction ops arbitrary: w)
  case Nil
  then show ?case by simp
next
  case (Cons op ops)
  obtain r1 w1 where f: "file_op svc op w = (r1, w1)" by (cases "file_op svc op w")
  note fr = file_op_result[OF f]
  show ?case
  proof (cases r1)
    case (Some x)
    then have "r = Some x" "w' = w1" using Cons.prems f by simp_all
    then show ?thesis using fr Some by auto
  next
    case None
    then have "run_ops svc ops w1 = (r, w')" using Cons.prems f by simp
    from Cons.IH[OF this] obtain cs where cs:
      "calls w' = calls w1 @ cs"
      "\<forall>c\<in>set cs. \<exists>op e. c = (File_op op, fst (io_fault svc op e))"
      "r = None \<longleftrightarrow> (\<forall>c\<in>set cs. snd c = None)"
      "\<forall>x. r = Some x \<longrightarrow> Some x \<in> snd ` set cs"
      "r = None \<longrightarrow> files w' = fold io_effect ops (files w1)"
      by blast
    let ?cs = "(File_op op, None) # cs"
    have "calls w' = calls w @ ?cs" using cs(1) fr(2) None by simp
    moreover have "\<forall>c\<in>set ?cs. \<exists>op e. c = (File_op op, fst (io_fault svc op e))"
      using cs(2) fr(4) None by auto
    moreover have "r = None \<longleftrightarrow> (\<forall>c\<in>set ?cs. snd c = None)" using cs(3) by simp
    moreover have "\<forall>x. r = Some x \<longrightarrow> Some x \<in> snd ` set ?cs" using cs(4) by simp
    moreover have "r = None \<longrightarrow> files w' = fold io_effect (op # ops) (files w)"
      using cs(5) fr(3) None by simp
    ultimately show ?thesis by blast
  qed
qed

lemma with_open_log:
  assumes "with_open svc n (run_ops svc ops) w = (r, w')"
  shows "heap w' = heap w \<and>
         (\<exists>cs. calls w' = calls w @ cs \<and> cs \<noteq> []
           \<and> (\<forall>c\<in>set cs. \<exists>op e. c = (File_op op, fst (io_fault svc op e)))
           \<and> (r = None \<longleftrightarrow> (\<forall>c\<in>set cs. snd c = None))
           \<and> (\<forall>x. r = Some x \<longrightarrow> Some x \<in> snd ` set cs)
           \<and> (r = None \<longrightarrow> files w' = fold io_effect (Open n # ops @ [Close n]) (files w)))"
proof -
  obtain r0 w0 where f0: "file_op svc (Open n) w = (r0, w0)"
    by (cases "file_op svc (Open n) w")
  note fr0 = file_op_result[OF f0]
  show ?thesis
  proof (cases r0)
    case (Some x)
    then have "r = Some x" "w' = w0" using assms f0 by (simp_all add: with_open_def)
    then show ?thesis using fr0 Some by auto
  next
    case None
    note n0 = this
    obtain rb wb where fb: "run_ops svc ops w0 = (rb, wb)" by (cases "run_ops svc ops w0")
    have hb: "heap wb = heap w0" using run_ops_heap[of svc ops w0] fb by simp
    from run_ops_log[OF fb] obtain cs where cs:
      "calls wb = calls w0 @ cs"
      "\<forall>c\<in>set cs. \<exists>op e. c = (File_op op, fst (io_fault svc op e))"
      "rb = None \<longleftrightarrow> (\<forall>c\<in>set cs. snd c = None)"
      "\<forall>x. rb = Some x \<longrightarrow> Some x \<in> snd ` set cs"
      "rb = None \<longrightarrow> files wb = fold io_effect ops (files w0)"
      by blast
    obtain rc wc where fc: "file_op svc (Close n) wb = (rc, wc)"
      by (cases "file_op svc (Close n) wb")
    note frc = file_op_result[OF fc]
    let ?cs = "(File_op (Open n), None) # cs @ [(File_op (Close n), rc)]"
    have "with_open svc n (run_ops svc ops) w =
            (case rb of None \<Rightarrow> rc | Some x \<Rightarrow> (case rc of None \<Rightarrow> Some x | Some y \<Rightarrow> Some y), wc)"
      using f0 n0 fb fc by (cases rb; cases rc) (simp_all add: with_open_def)
    with assms have r: "r = (case rb of None \<Rightarrow> rc | Some x \<Rightarrow> (case rc of None \<Rightarrow> Some x | Some y \<Rightarrow> Some y))"
      and w': "w' = wc" by simp_all
    have 1: "heap w' = heap w" using w' frc(1) hb fr0(1) by simp
    have 2: "calls w' = calls w @ ?cs" using w' frc(2) cs(1) fr0(2) n0 by simp
    have 3: "\<forall>c\<in>set ?cs. \<exists>op e. c = (File_op op, fst (io_fault svc op e))"
      using cs(2) fr0(4) n0 frc(4) by auto
    have 4: "r = None \<longleftrightarrow> (\<forall>c\<in>set ?cs. snd c = None)"
      using r cs(3) by (auto split: option.splits)
    have 5: "\<forall>x. r = Some x \<longrightarrow> Some x \<in> snd ` set ?cs"
    proof (cases rb)
      case None
      then show ?thesis using r by simp
    next
      case (Some x)
      then have "Some x \<in> snd ` set cs" using cs(4) by simp
      then show ?thesis using r Some by (auto split: option.splits)
    qed
    have 6: "r = None \<longrightarrow> files w' = fold io_effect (Open n # ops @ [Close n]) (files w)"
    proof
      assume "r = None"
      then have "rb = None" "rc = None" using r by (auto split: option.splits)
      then show "files w' = fold io_effect (Open n # ops @ [Close n]) (files w)"
        using w' frc(3) cs(5) fr0(3) n0 by simp
    qed
    have "?cs \<noteq> []" by simp
    with 1 2 3 4 5 6 show ?thesis by blast
  qed
qed

lemma with_open_write_rows:
  "with_open svc n (write_rows svc n a) w = with_open svc n (run_ops svc (export_ops n (heap w a))) w"
proof -
  obtain r0 w0 where f0: "file_op svc (Open n) w = (r0, w0)"
    by (cases "file_op svc (Open n) w")
  have "heap w0 = heap w" using file_op_result(1)[OF f0] .
  then have "write_rows svc n a w0 = run_ops svc (export_ops n (heap w a)) w0"
    by (simp add: write_rows_run_ops)
  then show ?thesis using f0 by (cases r0) (simp_all add: with_open_def)
qed

lemma type_a_result:
  assumes "process_type_a_order svc a u w = (r, w')"
    and "time_time svc (ext w) = (t, e1)"
  shows "\<exists>cs st. calls w' = calls w @ cs \<and> cs \<noteq> []
           \<and> (\<forall>c\<in>set cs. \<exists>op e. c = (File_op op, fst (io_fault svc op e)))
           \<and> heap w' = (if r = None then (heap w)(a := (heap w a)\<lparr>status := st\<rparr>) else heap w)
           \<and> st = (if \<forall>c\<in>set cs. snd c = None then ''exported'' else ''export_failed'')
           \<and> ((\<forall>c\<in>set cs. snd c = None \<or> snd c = Some IOError) \<longrightarrow> r = None)
           \<and> (\<forall>x. r = Some x \<longrightarrow> x \<noteq> IOError \<and> Some x \<in> snd ` set cs)
           \<and> ((\<forall>c\<in>set cs. snd c = None) \<longrightarrow>
                files w' = fold io_effect
                  (Open (csv_name u t) # export_ops (csv_name u t) (heap w a) @ [Close (csv_name u t)])
                  (files w))"
proof -
  let ?n = "csv_name u t"
  let ?w0 = "w\<lparr>ext := e1\<rparr>"
  obtain rw w1 where f: "with_open svc ?n (run_ops svc (export_ops ?n (heap w a))) ?w0 = (rw, w1)"
    by (cases "with_open svc ?n (run_ops svc (export_ops ?n (heap w a))) ?w0")
  have f': "with_open svc ?n (write_rows svc ?n a) ?w0 = (rw, w1)"
    using f with_open_write_rows[of svc ?n a ?w0] by simp
  from with_open_log[OF f] obtain cs where h1: "heap w1 = heap w"
    and cs: "calls w1 = calls w @ cs" "cs \<noteq> []"
      "\<forall>c\<in>set cs. \<exists>op e. c = (File_op op, fst (io_fault svc op e))"
      "rw = None \<longleftrightarrow> (\<forall>c\<in>set cs. snd c = None)"
      "\<forall>x. rw = Some x \<longrightarrow> Some x \<in> snd ` set cs"
      "rw = None \<longrightarrow> files w1 = fold io_effect (Open ?n # export_ops ?n (heap w a) @ [Close ?n]) (files w)"
    by auto
  let ?st = "if \<forall>c\<in>set cs. snd c = None then ''exported'' else ''export_failed''"
  have res: "process_type_a_order svc a u w =
               (case rw of None \<Rightarrow> set_status a ''exported'' w1
                | Some x \<Rightarrow> if x = IOError then set_status a ''export_failed'' w1 else (Some x, w1))"
    using assms(2) f' by (cases rw) (simp_all add: process_type_a_order_def try_except_def seq_def set_status_def)
  show ?thesis
  proof (cases rw)
    case None
    then have "r = None" "w' = w1\<lparr>heap := (heap w1)(a := (heap w1 a)\<lparr>status := ''exported''\<rparr>)\<rparr>"
      using res assms(1) by (simp_all add: set_status_def)
    then show ?thesis using None cs h1
      by (intro exI[of _ cs] exI[of _ ?st]) simp
  next
    case (Some x)
    note sx = this
    have notall: "(\<forall>c\<in>set cs. snd c = None) = False" using cs(4) Some by simp
    have xin: "Some x \<in> snd ` set cs" using cs(5) Some by simp
    show ?thesis
    proof (cases "x = IOError")
      case True
      then have rw': "r = None" "w' = w1\<lparr>heap := (heap w1)(a := (heap w1 a)\<lparr>status := ''export_failed''\<rparr>)\<rparr>"
        using res assms(1) sx by (simp_all add: set_status_def)
      show ?thesis using rw' cs(1,2,3) h1 True
        by (intro exI[of _ cs] exI[of _ ?st]) (simp add: notall)
    next
      case False
      then have rw': "r = Some x" "w' = w1" using res assms(1) sx by simp_all
      have "\<not> (\<forall>c\<in>set cs. snd c = None \<or> snd c = Some IOError)"
        using xin False by force
      then show ?thesis using rw' cs(1,2,3) h1 False xin
        by (intro exI[of _ cs] exI[of _ ?st]) (simp add: notall)
    qed
  qed
qed

section \<open>The stages of the pipeline\<close>

lemma update_ids_append: "update_ids (xs @ ys) = update_ids xs @ update_ids ys"
  by (induction xs rule: update_ids.induct) simp_all

lemma update_ids_file_ops:
  "\<forall>c\<in>set cs. \<exists>op e. c = (File_op op, fst (io_fault svc op e)) \<Longrightarrow> update_ids cs = []"
  by (induction cs) auto

lemma stage_ok_set_status:
  "s \<in> terminal_statuses - {''db_error''} \<Longrightarrow> stage_ok svc a (set_status a s)"
  unfolding stage_ok_def
proof (intro allI impI)
  fix w r w1 assume s: "s \<in> terminal_statuses - {''db_error''}" and "set_status a s w = (r, w1)"
  then have "r = None" "heap w1 = (heap w)(a := (heap w a)\<lparr>status := s\<rparr>)" "calls w1 = calls w"
    by (auto simp: set_status_def)
  then show "\<exists>cs st. calls w1 = calls w @ cs \<and> update_ids cs = []
           \<and> heap w1 = (if r = None then (heap w)(a := (heap w a)\<lparr>status := st\<rparr>) else heap w)
           \<and> st \<in> terminal_statuses - {''db_error''}
           \<and> (classified svc \<longrightarrow> r = None)"
    using s by (intro exI[of _ "[]"] exI[of _ s]) simp
qed

lemma stage_ok_type_c: "stage_ok svc a (process_type_c_order a)"
proof -
  have 1: "stage_ok svc a (set_status a ''completed'')"
    by (rule stage_ok_set_status) (simp add: terminal_statuses_def)
  have 2: "stage_ok svc a (set_status a ''in_progress'')"
    by (rule stage_ok_set_status) (simp add: terminal_statuses_def)
  show ?thesis using 1 2 unfolding stage_ok_def process_type_c_order_def
    by (metis (full_types))
qed

lemma stage_ok_type_a: "stage_ok svc a (\<lambda>w. process_type_a_order svc a u w)"
  unfolding stage_ok_def
proof (intro allI impI)
  fix w r w1 assume p: "process_type_a_order svc a u w = (r, w1)"
  obtain t e1 where t: "time_time svc (ext w) = (t, e1)" by (cases "time_time svc (ext w)")
  from type_a_result[OF p t] obtain cs st where cs:
    "calls w1 = calls w @ cs"
    "\<forall>c\<in>set cs. \<exists>op e. c = (File_op op, fst (io_fault svc op e))"
    "heap w1 = (if r = None then (heap w)(a := (heap w a)\<lparr>status := st\<rparr>) else heap w)"
    "st = (if \<forall>c\<in>set cs. snd c = None then ''exported'' else ''export_failed'')"
    "(\<forall>c\<in>set cs. snd c = None \<or> snd c = Some IOError) \<longrightarrow> r = None"
    by blast
  have u: "update_ids cs = []" using update_ids_file_ops[OF cs(2)] .
  have st: "st \<in> terminal_statuses - {''db_error''}" using cs(4) by (simp add: terminal_statuses_def)
  have cl: "classified svc \<longrightarrow> r = None"
  proof
    assume c: "classified svc"
    have "\<forall>c\<in>set cs. snd c = None \<or> snd c = Some IOError"
    proof
      fix ev assume "ev \<in> set cs"
      then obtain op e where ev: "ev = (File_op op, fst (io_fault svc op e))" using cs(2) by blast
      show "snd ev = None \<or> snd ev = Some IOError"
      proof (cases "fst (io_fault svc op e)")
        case None
        then show ?thesis using ev by simp
      next
        case (Some x)
        then have "x = IOError" using c unfolding classified_def by blast
        then show ?thesis using ev Some by simp
      qed
    qed
    then show "r = None" using cs(5) by simp
  qed
  show "\<exists>cs st. calls w1 = calls w @ cs \<and> update_ids cs = []
           \<and> heap w1 = (if r = None then (heap w)(a := (heap w a)\<lparr>status := st\<rparr>) else heap w)
           \<and> st \<in> terminal_statuses - {''db_error''}
           \<and> (classified svc \<longrightarrow> r = None)"
    using cs(1) u cs(3) st cl by blast
qed

lemma stage_ok_type_b: "stage_ok svc a (process_type_b_order svc a)"
  unfolding stage_ok_def
proof (intro allI impI)
  fix w r w1 assume p: "process_type_b_order svc a w = (r, w1)"
  obtain out e1 where o: "api_call_api svc (id' (heap w a)) (ext w) = (out, e1)"
    by (cases "api_call_api svc (id' (heap w a)) (ext w)")
  let ?ev = "(Call_api (id' (heap w a)), case out of Inl x \<Rightarrow> Some x | Inr _ \<Rightarrow> None)"
  let ?w0 = "w\<lparr>ext := e1, calls := calls w @ [?ev]\<rparr>"
  have inv: "invoke (Call_api (id' (heap w a))) (api_call_api svc (id' (heap w a))) w = (out, ?w0)"
    using o by (simp add: invoke_def)
  have cl: "classified svc \<Longrightarrow> (\<forall>x. out = Inl x \<longrightarrow> x = APIException)
              \<and> (\<forall>resp. out = Inr resp \<longrightarrow> api_status resp = ''success'' \<longrightarrow> api_data resp \<noteq> None)"
    using o unfolding classified_def by (metis fst_conv)
  have "\<exists>st. calls w1 = calls w @ [?ev]
           \<and> heap w1 = (if r = None then (heap w)(a := (heap w a)\<lparr>status := st\<rparr>) else heap w)
           \<and> st \<in> terminal_statuses - {''db_error''}
           \<and> (classified svc \<longrightarrow> r = None)"
  proof (cases out)
    case (Inl x)
    show ?thesis
    proof (cases "x = APIException")
      case True
      then have "r = None" "w1 = ?w0\<lparr>heap := (heap w)(a := (heap w a)\<lparr>status := ''api_failure''\<rparr>)\<rparr>"
        using p inv Inl by (auto simp: process_type_b_order_def try_except_def set_status_def)
      then show ?thesis by (intro exI[of _ "''api_failure''"]) (simp add: terminal_statuses_def)
    next
      case False
      then have "r = Some x" "w1 = ?w0"
        using p inv Inl by (auto simp: process_type_b_order_def try_except_def set_status_def)
      then show ?thesis using cl Inl False
        by (intro exI[of _ "''api_failure''"]) (auto simp: terminal_statuses_def)
    qed
  next
    case (Inr resp)
    have tb: "type_b_status a resp ?w0 = (r, w1)"
    proof -
      have "process_type_b_order svc a w =
              (case type_b_status a resp ?w0 of (None, w') \<Rightarrow> (None, w')
               | (Some x, w') \<Rightarrow> if x = APIException then set_status a ''api_failure'' w' else (Some x, w'))"
        using inv Inr by (simp add: process_type_b_order_def try_except_def)
      moreover have "fst (type_b_status a resp ?w0) = None \<or> fst (type_b_status a resp ?w0) = Some TypeError"
        by (simp add: type_b_status_def set_status_def split: option.splits)
      ultimately show ?thesis using p
        by (cases "type_b_status a resp ?w0") auto
    qed
    show ?thesis
    proof (cases "api_status resp = ''success'' \<and> api_data resp = None")
      case True
      then have "r = Some TypeError" "w1 = ?w0" using tb by (auto simp: type_b_status_def)
      then show ?thesis using cl Inr True
        by (intro exI[of _ "''error''"]) (auto simp: terminal_statuses_def)
    next
      case False
      then obtain st where "st \<in> {''processed'', ''pending'', ''error'', ''api_error''}"
        "r = None" "w1 = ?w0\<lparr>heap := (heap w)(a := (heap w a)\<lparr>status := st\<rparr>)\<rparr>"
        using tb by (auto simp: type_b_status_def set_status_def split: option.splits if_splits)
      then show ?thesis by (intro exI[of _ st]) (auto simp: terminal_statuses_def)
    qed
  qed
  then show "\<exists>cs st. calls w1 = calls w @ cs \<and> update_ids cs = []
           \<and> heap w1 = (if r = None then (heap w)(a := (heap w a)\<lparr>status := st\<rparr>) else heap w)
           \<and> st \<in> terminal_statuses - {''db_error''}
           \<and> (classified svc \<longrightarrow> r = None)"
    by (intro exI[of _ "[?ev]"]) simp
qed

lemma stage_ok_dispatch:
  "stage_ok svc a
     (\<lambda>w. if type' (heap w a) = ''A'' then process_type_a_order svc a user_id w
          else if type' (heap w a) = ''B'' then process_type_b_order svc a w
          else if type' (heap w a) = ''C'' then process_type_c_order a w
          else set_status a ''unknown_type'' w)"
proof -
  have u: "stage_ok svc a (set_status a ''unknown_type'')"
    by (rule stage_ok_set_status) (simp add: terminal_statuses_def)
  show ?thesis
    using stage_ok_type_a[of svc a user_id] stage_ok_type_b[of svc a] stage_ok_type_c[of svc a] u
    unfolding stage_ok_def by presburger
qed

lemma update_result:
  assumes "update_order_status svc a w = (r, w')"
    and "db_update_order_status svc (id' (heap w a)) (status (heap w a)) (priority (heap w a)) (ext w)
           = (out, e1)"
  shows "calls w' = calls w @
           [(Update_order_status (id' (heap w a)) (status (heap w a)) (priority (heap w a)),
             case out of Inl x \<Rightarrow> Some x | Inr _ \<Rightarrow> None)]"
    and "heap w' = (if out = Inl DatabaseException
                    then (heap w)(a := (heap w a)\<lparr>status := ''db_error''\<rparr>) else heap w)"
    and "r = (case out of Inl x \<Rightarrow> if x = DatabaseException then None else Some x | Inr _ \<Rightarrow> None)"
    and "files w' = files w"
    and "ext w' = e1"
  using assms
  by (auto simp: update_order_status_def try_except_def invoke_def set_status_def
           split: sum.splits if_splits)

lemma status_priority_commute:
  "(order :: Order)\<lparr>priority := p, status := s\<rparr> = order\<lparr>status := s, priority := p\<rparr>"
  by (cases order) simp

lemma set_order_priority_result:
  "set_order_priority a w =
     (None, w\<lparr>heap := (heap w)(a := (heap w a)
        \<lparr>priority := (if py_gt (amount (heap w a)) (Fin 200) then ''high'' else ''low'')\<rparr>)\<rparr>)"
  by (simp add: set_order_priority_def set_priority_def)

lemma process_order_result:
  assumes "process_order svc a u w = (r, w')"
  shows "\<exists>cs s p. calls w' = calls w @ cs
           \<and> heap w' = (heap w)(a := (heap w a)\<lparr>status := s, priority := p\<rparr>)
           \<and> (r = None \<longrightarrow> s \<in> terminal_statuses
                 \<and> p = (if py_gt (amount (heap w a)) (Fin 200) then ''high'' else ''low'')
                 \<and> update_ids cs = [id' (heap w a)])
           \<and> (classified svc \<longrightarrow> r = None)"
proof -
  let ?T = "\<lambda>w. if type' (heap w a) = ''A'' then process_type_a_order svc a u w
          else if type' (heap w a) = ''B'' then process_type_b_order svc a w
          else if type' (heap w a) = ''C'' then process_type_c_order a w
          else set_status a ''unknown_type'' w"
  obtain rt w1 where t: "?T w = (rt, w1)" by (cases "?T w")
  from stage_ok_dispatch[of svc a u] t obtain cs1 st where s1:
    "calls w1 = calls w @ cs1" "update_ids cs1 = []"
    "heap w1 = (if rt = None then (heap w)(a := (heap w a)\<lparr>status := st\<rparr>) else heap w)"
    "st \<in> terminal_statuses - {''db_error''}"
    "classified svc \<longrightarrow> rt = None"
    unfolding stage_ok_def by blast
  show ?thesis
  proof (cases rt)
    case (Some x)
    then have "r = Some x" "w' = w1" using assms t by (auto simp: process_order_def seq_def)
    then show ?thesis using s1 Some
      by (intro exI[of _ cs1] exI[of _ "status (heap w a)"] exI[of _ "priority (heap w a)"]) simp
  next
    case None
    let ?P = "if py_gt (amount (heap w a)) (Fin 200) then ''high'' else ''low''"
    let ?w2 = "w1\<lparr>heap := (heap w)(a := (heap w a)\<lparr>status := st, priority := ?P\<rparr>)\<rparr>"
    have h1: "heap w1 = (heap w)(a := (heap w a)\<lparr>status := st\<rparr>)" using s1(3) None by simp
    have sp: "set_order_priority a w1 = (None, ?w2)"
      by (simp add: set_order_priority_result h1)
    have u: "update_order_status svc a ?w2 = (r, w')"
      using assms t None sp by (auto simp: process_order_def seq_def)
    obtain out e1 where o:
      "db_update_order_status svc (id' (heap ?w2 a)) (status (heap ?w2 a)) (priority (heap ?w2 a)) (ext ?w2)
         = (out, e1)"
      by (cases "db_update_order_status svc (id' (heap ?w2 a)) (status (heap ?w2 a)) (priority (heap ?w2 a)) (ext ?w2)")
    note ur = update_result[OF u o]
    let ?ev = "(Update_order_status (id' (heap w a)) st ?P, case out of Inl x \<Rightarrow> Some x | Inr _ \<Rightarrow> None)"
    let ?s = "if out = Inl DatabaseException then ''db_error'' else st"
    have c: "calls w' = calls w @ (cs1 @ [?ev])" using ur(1) s1(1) by simp
    have h: "heap w' = (heap w)(a := (heap w a)\<lparr>status := ?s, priority := ?P\<rparr>)"
      using ur(2) by (cases "out = Inl DatabaseException") (simp_all add: status_priority_commute)
    have "''db_error'' \<in> terminal_statuses" by (simp add: terminal_statuses_def)
    then have t: "?s \<in> terminal_statuses" using s1(4) by simp
    have i: "update_ids (cs1 @ [?ev]) = [id' (heap w a)]"
      using s1(2) by (simp add: update_ids_append)
    have cl: "classified svc \<longrightarrow> r = None"
    proof
      assume "classified svc"
      then have "\<forall>x. out = Inl x \<longrightarrow> x = DatabaseException"
        using o unfolding classified_def by (metis fst_conv)
      then show "r = None" using ur(3) by (auto split: sum.splits)
    qed
    show ?thesis using c h t i cl
      by (intro exI[of _ "cs1 @ [?ev]"] exI[of _ ?s] exI[of _ ?P]) simp
  qed
qed

lemma process_order_unfold:
  assumes "process_order svc a u w = (r, w')"
  obtains (raised) x w1 where
      "(if type' (heap w a) = ''A'' then process_type_a_order svc a u w
        else if type' (heap w a) = ''B'' then process_type_b_order svc a w
        else if type' (heap w a) = ''C'' then process_type_c_order a w
        else set_status a ''unknown_type'' w) = (Some x, w1)"
      "r = Some x" "w' = w1"
  | (completed) w1 where
      "(if type' (heap w a) = ''A'' then process_type_a_order svc a u w
        else if type' (heap w a) = ''B'' then process_type_b_order svc a w
        else if type' (heap w a) = ''C'' then process_type_c_order a w
        else set_status a ''unknown_type'' w) = (None, w1)"
      "update_order_status svc a
         (w1\<lparr>heap := (heap w1)(a := (heap w1 a)
            \<lparr>priority := (if py_gt (amount (heap w1 a)) (Fin 200) then ''high'' else ''low'')\<rparr>)\<rparr>)
       = (r, w')"
proof -
  let ?T = "\<lambda>w. if type' (heap w a) = ''A'' then process_type_a_order svc a u w
        else if type' (heap w a) = ''B'' then process_type_b_order svc a w
        else if type' (heap w a) = ''C'' then process_type_c_order a w
        else set_status a ''unknown_type'' w"
  obtain rt w1 where t: "?T w = (rt, w1)" by (cases "?T w")
  show thesis
  proof (cases rt)
    case (Some x)
    then have "r = Some x" "w' = w1" using assms t by (auto simp: process_order_def seq_def)
    then show ?thesis using raised t Some by blast
  next
    case None
    then have "update_order_status svc a
         (w1\<lparr>heap := (heap w1)(a := (heap w1 a)
            \<lparr>priority := (if py_gt (amount (heap w1 a)) (Fin 200) then ''high'' else ''low'')\<rparr>)\<rparr>)
       = (r, w')"
      using assms t by (auto simp: process_order_def seq_def set_order_priority_result)
    then show ?thesis using completed t None by blast
  qed
qed

text \<open>The log of one order's pipeline: the status update is its last call, if it is reached.\<close>

lemma process_order_log:
  assumes "process_order svc a u w = (r, w')"
  shows "\<exists>cs. calls w' = calls w @ cs \<and>
          ((update_ids cs = [] \<and> r \<noteq> None \<and> heap w' = heap w) \<or>
           (\<exists>cs1 s e. cs = cs1 @ [(Update_order_status (id' (heap w a)) s
                           (if py_gt (amount (heap w a)) (Fin 200) then ''high'' else ''low''), e)]
              \<and> update_ids cs1 = []
              \<and> s \<in> terminal_statuses - {''db_error''}
              \<and> heap w' = (heap w)(a := (heap w a)
                   \<lparr>status := (if e = Some DatabaseException then ''db_error'' else s),
                     priority := (if py_gt (amount (heap w a)) (Fin 200) then ''high'' else ''low'')\<rparr>)
              \<and> r = (case e of None \<Rightarrow> None
                       | Some x \<Rightarrow> if x = DatabaseException then None else Some x)))"
  using assms
proof (cases rule: process_order_unfold)
  case (raised x w1)
  from stage_ok_dispatch[of svc a u] raised(1) obtain cs1 where
    "calls w1 = calls w @ cs1" "update_ids cs1 = []" "heap w1 = heap w"
    unfolding stage_ok_def by fastforce
  then show ?thesis using raised(2,3) by auto
next
  case (completed w1)
  let ?P = "if py_gt (amount (heap w a)) (Fin 200) then ''high'' else ''low''"
  from stage_ok_dispatch[of svc a u] completed(1) obtain cs1 st where s1:
    "calls w1 = calls w @ cs1" "update_ids cs1 = []"
    "heap w1 = (heap w)(a := (heap w a)\<lparr>status := st\<rparr>)"
    "st \<in> terminal_statuses - {''db_error''}"
    unfolding stage_ok_def by fastforce
  let ?w2 = "w1\<lparr>heap := (heap w)(a := (heap w a)\<lparr>status := st, priority := ?P\<rparr>)\<rparr>"
  have u: "update_order_status svc a ?w2 = (r, w')" using completed(2) s1(3) by simp
  obtain out e1 where o:
    "db_update_order_status svc (id' (heap ?w2 a)) (status (heap ?w2 a)) (priority (heap ?w2 a)) (ext ?w2)
       = (out, e1)"
    by (cases "db_update_order_status svc (id' (heap ?w2 a)) (status (heap ?w2 a)) (priority (heap ?w2 a)) (ext ?w2)")
  note ur = update_result[OF u o]
  let ?e = "case out of Inl x \<Rightarrow> Some x | Inr _ \<Rightarrow> None"
  have c: "calls w' = calls w @ (cs1 @ [(Update_order_status (id' (heap w a)) st ?P, ?e)])"
    using ur(1) s1(1) by simp
  have h: "heap w' = (heap w)(a := (heap w a)
      \<lparr>status := (if ?e = Some DatabaseException then ''db_error'' else st), priority := ?P\<rparr>)"
    using ur(2) by (cases out) (auto simp: status_priority_commute)
  have rr: "r = (case ?e of None \<Rightarrow> None | Some x \<Rightarrow> if x = DatabaseException then None else Some x)"
    using ur(3) by (cases out) auto
  show ?thesis using c h rr s1(2,4) by blast
qed

section \<open>The loop and the batch\<close>

lemma same_fields_refl: "same_fields h h"
  by (simp add: same_fields_def)

lemma same_fields_trans: "same_fields h1 h2 \<Longrightarrow> same_fields h2 h3 \<Longrightarrow> same_fields h1 h3"
  by (simp add: same_fields_def)

lemma same_fields_upd: "same_fields h (h(a := (h a)\<lparr>status := s, priority := p\<rparr>))"
  by (simp add: same_fields_def)

lemma for_orders_result:
  assumes "for_orders svc u orders w = (r, w')"
  shows "same_fields (heap w) (heap w')
       \<and> (r = None \<longrightarrow>
            (\<forall>a\<in>set orders. status (heap w' a) \<in> terminal_statuses)
            \<and> (\<forall>b. status (heap w b) \<in> terminal_statuses \<longrightarrow> status (heap w' b) \<in> terminal_statuses)
            \<and> update_ids (calls w') = update_ids (calls w) @ map (\<lambda>a. id' (heap w a)) orders)
       \<and> (classified svc \<longrightarrow> r = None)"
  using assms
proof (induction orders arbitrary: w)
  case Nil
  then show ?case by (simp add: same_fields_refl)
next
  case (Cons a orders)
  obtain r1 w1 where p: "process_order svc a u w = (r1, w1)"
    by (cases "process_order svc a u w")
  from process_order_result[OF p] obtain cs s pr where p1:
    "calls w1 = calls w @ cs"
    "heap w1 = (heap w)(a := (heap w a)\<lparr>status := s, priority := pr\<rparr>)"
    "r1 = None \<longrightarrow> s \<in> terminal_statuses \<and> update_ids cs = [id' (heap w a)]"
    "classified svc \<longrightarrow> r1 = None"
    by blast
  have sf1: "same_fields (heap w) (heap w1)" using p1(2) same_fields_upd by simp
  show ?case
  proof (cases r1)
    case (Some x)
    then have "r = Some x" "w' = w1" using Cons.prems p by simp_all
    then show ?thesis using sf1 p1(4) Some by simp
  next
    case None
    then have f: "for_orders svc u orders w1 = (r, w')" using Cons.prems p by simp
    note ih = Cons.IH[OF f]
    have sf: "same_fields (heap w) (heap w')" using sf1 ih same_fields_trans by blast
    have ids: "map (\<lambda>a. id' (heap w1 a)) orders = map (\<lambda>a. id' (heap w a)) orders"
      using sf1 by (simp add: same_fields_def)
    have t1: "status (heap w1 a) \<in> terminal_statuses" using p1(2,3) None by simp
    have keep1: "\<forall>b. status (heap w b) \<in> terminal_statuses \<longrightarrow> status (heap w1 b) \<in> terminal_statuses"
      using p1(2) t1 by (metis fun_upd_apply)
    have "r = None \<longrightarrow>
            (\<forall>a\<in>set (a # orders). status (heap w' a) \<in> terminal_statuses)
            \<and> (\<forall>b. status (heap w b) \<in> terminal_statuses \<longrightarrow> status (heap w' b) \<in> terminal_statuses)
            \<and> update_ids (calls w') = update_ids (calls w) @ map (\<lambda>a. id' (heap w a)) (a # orders)"
    proof
      assume rn: "r = None"
      have a: "\<forall>a\<in>set orders. status (heap w' a) \<in> terminal_statuses"
        and k: "\<forall>b. status (heap w1 b) \<in> terminal_statuses \<longrightarrow> status (heap w' b) \<in> terminal_statuses"
        and i: "update_ids (calls w') = update_ids (calls w1) @ map (\<lambda>a. id' (heap w1 a)) orders"
        using ih rn by simp_all
      have "update_ids (calls w1) = update_ids (calls w) @ [id' (heap w a)]"
        using p1(1,3) None by (simp add: update_ids_append)
      then have "update_ids (calls w') = update_ids (calls w) @ map (\<lambda>a. id' (heap w a)) (a # orders)"
        using i ids by simp
      moreover have "\<forall>a\<in>set (a # orders). status (heap w' a) \<in> terminal_statuses"
        using a k t1 by simp
      moreover have "\<forall>b. status (heap w b) \<in> terminal_statuses \<longrightarrow> status (heap w' b) \<in> terminal_statuses"
        using k keep1 by blast
      ultimately show "(\<forall>a\<in>set (a # orders). status (heap w' a) \<in> terminal_statuses)
            \<and> (\<forall>b. status (heap w b) \<in> terminal_statuses \<longrightarrow> status (heap w' b) \<in> terminal_statuses)
            \<and> update_ids (calls w') = update_ids (calls w) @ map (\<lambda>a. id' (heap w a)) (a # orders)"
        by blast
    qed
    moreover have "classified svc \<longrightarrow> r = None" using ih by blast
    ultimately show ?thesis using sf by blast
  qed
qed

lemma process_orders_result:
  assumes "process_orders svc u w = (b, w')"
    and "db_get_orders_by_user svc u (ext w) = (out, e1)"
  shows "same_fields (heap w) (heap w')"
    and "b \<Longrightarrow> \<exists>orders. out = Inr orders \<and> orders \<noteq> []
            \<and> (\<forall>a\<in>set orders. status (heap w' a) \<in> terminal_statuses)
            \<and> update_ids (calls w') = update_ids (calls w) @ map (\<lambda>a. id' (heap w a)) orders"
    and "classified svc \<Longrightarrow> out = Inr orders \<Longrightarrow> orders \<noteq> [] \<Longrightarrow> b"
proof -
  let ?ev = "(Get_orders_by_user u, case out of Inl x \<Rightarrow> Some x | Inr _ \<Rightarrow> None)"
  let ?w0 = "w\<lparr>ext := e1, calls := calls w @ [?ev]\<rparr>"
  have inv: "invoke (Get_orders_by_user u) (db_get_orders_by_user svc u) w = (out, ?w0)"
    using assms(2) by (simp add: invoke_def)
  have u0: "update_ids (calls ?w0) = update_ids (calls w)" by (simp add: update_ids_append)
  have stop: "(\<exists>x. out = Inl x) \<or> out = Inr [] \<Longrightarrow> b = False \<and> w' = ?w0"
    using assms(1) inv by (auto simp: process_orders_def)
  have go: "out = Inr os \<Longrightarrow> os \<noteq> [] \<Longrightarrow>
            \<exists>r. for_orders svc u os ?w0 = (r, w') \<and> b = (r = None)" for os
    using assms(1) inv
    by (cases "for_orders svc u os ?w0") (auto simp: process_orders_def split: option.splits)
  show "same_fields (heap w) (heap w')"
  proof (cases "(\<exists>x. out = Inl x) \<or> out = Inr []")
    case True
    then show ?thesis using stop by (simp add: same_fields_refl)
  next
    case False
    then obtain os where os: "out = Inr os" "os \<noteq> []" by (cases out) auto
    from go[OF os] obtain r where "for_orders svc u os ?w0 = (r, w')" by blast
    from for_orders_result[OF this] show ?thesis by simp
  qed
  show "\<exists>orders. out = Inr orders \<and> orders \<noteq> []
            \<and> (\<forall>a\<in>set orders. status (heap w' a) \<in> terminal_statuses)
            \<and> update_ids (calls w') = update_ids (calls w) @ map (\<lambda>a. id' (heap w a)) orders" if b
  proof -
    have "\<not> ((\<exists>x. out = Inl x) \<or> out = Inr [])" using stop that by blast
    then obtain os where os: "out = Inr os" "os \<noteq> []" by (cases out) auto
    from go[OF os] that have f: "for_orders svc u os ?w0 = (None, w')" by auto
    from for_orders_result[OF f] u0 show ?thesis using os by simp
  qed
  show b if "classified svc" "out = Inr orders" "orders \<noteq> []"
  proof -
    from go[OF that(2,3)] obtain r where f: "for_orders svc u orders ?w0 = (r, w')" "b = (r = None)"
      by blast
    from for_orders_result[OF f(1)] that(1) f(2) show ?thesis by simp
  qed
qed

section \<open>Evaluation on concrete inputs\<close>

lemmas eval_defs = process_orders_def invoke_def process_order_def seq_def try_except_def
  process_type_a_order_def process_type_b_order_def process_type_c_order_def type_b_status_def
  set_order_priority_def set_priority_def set_status_def update_order_status_def
  with_open_def write_rows_def file_op_def skip_def
  demo_services_def demo_world_def demo_heap_def Order_init_def py_gt_def py_ge_def

lemma lower_str_bool: "lower (str_bool b) = (if b then ''true'' else ''false'')"
  by (simp add: lower_def str_bool_def lower_char_def)

section \<open>Exports that fail\<close>

lemma classified_io:
  "classified svc \<Longrightarrow> fst (io_fault svc op e) = None \<or> fst (io_fault svc op e) = Some IOError"
  unfolding classified_def by (cases "fst (io_fault svc op e)") auto

lemma with_open_fails:
  assumes "classified svc" and "export_always_fails svc"
  shows "fst (with_open svc n (run_ops svc (Write n row # ops)) w) = Some IOError"
proof -
  obtain r0 w0 where f0: "file_op svc (Open n) w = (r0, w0)"
    by (cases "file_op svc (Open n) w")
  have r0: "r0 = None \<or> r0 = Some IOError"
    using file_op_result(4)[OF f0] classified_io[OF assms(1)] by simp
  show ?thesis
  proof (cases r0)
    case (Some x)
    then show ?thesis using f0 r0 by (simp add: with_open_def)
  next
    case None
    then have "fst (io_fault svc (Open n) (ext w)) \<noteq> Some IOError"
      using file_op_result(4)[OF f0] by simp
    then have wr: "\<forall>n row e. fst (io_fault svc (Write n row) e) = Some IOError"
      using assms(2) unfolding export_always_fails_def by blast
    obtain r1 w1 where f1: "file_op svc (Write n row) w0 = (r1, w1)"
      by (cases "file_op svc (Write n row) w0")
    have r1: "r1 = Some IOError" using file_op_result(4)[OF f1] wr by simp
    obtain rc wc where fc: "file_op svc (Close n) w1 = (rc, wc)"
      by (cases "file_op svc (Close n) w1")
    have rc: "rc = None \<or> rc = Some IOError"
      using file_op_result(4)[OF fc] classified_io[OF assms(1)] by simp
    show ?thesis using f0 None f1 r1 fc rc by (auto simp: with_open_def)
  qed
qed

lemma type_a_export_fails:
  assumes "classified svc" and "export_always_fails svc"
    and "process_type_a_order svc a u w = (r, w')"
  shows "r = None \<and> heap w' = (heap w)(a := (heap w a)\<lparr>status := ''export_failed''\<rparr>)"
proof -
  obtain t e1 where tt: "time_time svc (ext w) = (t, e1)" by (cases "time_time svc (ext w)")
  let ?n = "csv_name u t"
  let ?w0 = "w\<lparr>ext := e1\<rparr>"
  let ?ops = "export_ops ?n (heap w a)"
  obtain rw w1 where f: "with_open svc ?n (run_ops svc ?ops) ?w0 = (rw, w1)"
    by (cases "with_open svc ?n (run_ops svc ?ops) ?w0")
  have "?ops = Write ?n header_row # tl ?ops" by (simp add: export_ops_def)
  then have "fst (with_open svc ?n (run_ops svc ?ops) ?w0) = Some IOError"
    using with_open_fails[OF assms(1,2), of ?n header_row "tl ?ops" ?w0] by simp
  then have rw: "rw = Some IOError" using f by simp
  have h1: "heap w1 = heap w" using with_open_log[OF f] by simp
  have f': "with_open svc ?n (write_rows svc ?n a) ?w0 = (Some IOError, w1)"
    using f rw with_open_write_rows[of svc ?n a ?w0] by simp
  have "process_type_a_order svc a u w = set_status a ''export_failed'' w1"
    using tt f' by (simp add: process_type_a_order_def try_except_def seq_def)
  then show ?thesis using assms(3) h1 by (auto simp: set_status_def)
qed

lemma process_order_export_fails:
  assumes "classified svc" and "export_always_fails svc" and "update_never_raises svc"
    and "process_order svc a u w = (r, w')" and "type' (heap w a) = ''A''"
  shows "r = None \<and> status (heap w' a) = ''export_failed''"
  using assms(4)
proof (cases rule: process_order_unfold)
  case (raised x w1)
  then have "process_type_a_order svc a u w = (Some x, w1)" using assms(5) by simp
  from type_a_export_fails[OF assms(1,2) this] show ?thesis by simp
next
  case (completed w1)
  then have "process_type_a_order svc a u w = (None, w1)" using assms(5) by simp
  from type_a_export_fails[OF assms(1,2) this]
  have h1: "heap w1 = (heap w)(a := (heap w a)\<lparr>status := ''export_failed''\<rparr>)" by simp
  let ?w2 = "w1\<lparr>heap := (heap w1)(a := (heap w1 a)
            \<lparr>priority := (if py_gt (amount (heap w1 a)) (Fin 200) then ''high'' else ''low'')\<rparr>)\<rparr>"
  obtain out e1 where o:
    "db_update_order_status svc (id' (heap ?w2 a)) (status (heap ?w2 a)) (priority (heap ?w2 a)) (ext ?w2)
       = (out, e1)"
    by (cases "db_update_order_status svc (id' (heap ?w2 a)) (status (heap ?w2 a)) (priority (heap ?w2 a)) (ext ?w2)")
  have "\<forall>x. out \<noteq> Inl x" using o assms(3) unfolding update_never_raises_def by (metis fst_conv)
  then obtain b where out: "out = Inr b" by (cases out) auto
  note ur = update_result[OF completed(2) o]
  have "r = None" using ur(3) out by simp
  moreover have "heap w' = heap ?w2" using ur(2) out by simp
  ultimately show ?thesis using h1 by simp
qed

lemma for_orders_export_failed:
  assumes "classified svc" and "export_always_fails svc" and "update_never_raises svc"
    and "for_orders svc u orders w = (r, w')"
  shows "r = None \<and>
         (\<forall>a. type' (heap w a) = ''A'' \<longrightarrow>
              a \<in> set orders \<or> status (heap w a) = ''export_failed'' \<longrightarrow>
              status (heap w' a) = ''export_failed'')"
  using assms(4)
proof (induction orders arbitrary: w)
  case Nil
  then show ?case by simp
next
  case (Cons b orders)
  obtain r1 w1 where p: "process_order svc b u w = (r1, w1)"
    by (cases "process_order svc b u w")
  from process_order_result[OF p] assms(1) obtain s pr where p1:
    "heap w1 = (heap w)(b := (heap w b)\<lparr>status := s, priority := pr\<rparr>)" "r1 = None"
    by blast
  have f: "for_orders svc u orders w1 = (r, w')" using Cons.prems p p1(2) by simp
  note ih = Cons.IH[OF f]
  have ty: "type' (heap w1 a) = type' (heap w a)" for a using p1(1) by simp
  have "status (heap w' a) = ''export_failed''"
    if a: "type' (heap w a) = ''A''" "a \<in> set (b # orders) \<or> status (heap w a) = ''export_failed''" for a
  proof (cases "a = b")
    case True
    then have "status (heap w1 a) = ''export_failed''"
      using process_order_export_fails[OF assms(1,2,3) p] a(1) by simp
    then show ?thesis using ih ty[of a] a(1) by simp
  next
    case False
    then have "heap w1 a = heap w a" using p1(1) by simp
    then show ?thesis using ih ty[of a] a False by auto
  qed
  then show ?case using ih by blast
qed

lemma process_orders_unfold:
  assumes "db_get_orders_by_user svc u (ext w) = (Inr orders, e1)" and "orders \<noteq> []"
  shows "process_orders svc u w =
           (fst (for_orders svc u orders
                   (w\<lparr>ext := e1, calls := calls w @ [(Get_orders_by_user u, None)]\<rparr>)) = None,
            snd (for_orders svc u orders
                   (w\<lparr>ext := e1, calls := calls w @ [(Get_orders_by_user u, None)]\<rparr>)))"
  using assms
  by (cases "for_orders svc u orders (w\<lparr>ext := e1, calls := calls w @ [(Get_orders_by_user u, None)]\<rparr>)")
     (auto simp: process_orders_def invoke_def split: option.splits)

section \<open>Comparisons and the log\<close>

lemma update_ids_last:
  "update_ids (cs1 @ [(Update_order_status i s p, e)]) \<noteq> []"
  by (simp add: update_ids_append)

lemma py_ge_lt_50: "x \<noteq> NaN \<Longrightarrow> py_lt x (Fin 50) \<longleftrightarrow> \<not> py_ge x (Fin 50)"
  by (cases x) (auto simp: py_ge_def)

lemma py_ge_lt_100: "x \<noteq> NaN \<Longrightarrow> py_lt x (Fin 100) \<longleftrightarrow> \<not> py_ge x (Fin 100)"
  by (cases x) (auto simp: py_ge_def)

section \<open>The claims\<close>

text \<open>
  C1, as stated, fails: not every fault is contained. Here the remote call for order 2
  raises an exception of a class that the handler around the call does not name; it
  leaves the per-order pipeline, the outer handler of \<open>process_orders\<close> returns \<open>False\<close>,
  order 3 is never visited and keeps its status \<open>new\<close>, and no status is persisted.
\<close>

theorem unclassified_fault_aborts_batch:
  "fst (db_get_orders_by_user
          (demo_services (Inr [2, 3]) (Inl OtherException) (Inr True) (\<lambda>op. None)) 1 ()) = Inr [2, 3]
   \<and> fst (process_orders
            (demo_services (Inr [2, 3]) (Inl OtherException) (Inr True) (\<lambda>op. None)) 1 demo_world) = False
   \<and> status (heap (snd (process_orders
            (demo_services (Inr [2, 3]) (Inl OtherException) (Inr True) (\<lambda>op. None)) 1 demo_world)) 3) = ''new''
   \<and> update_ids (calls (snd (process_orders
            (demo_services (Inr [2, 3]) (Inl OtherException) (Inr True) (\<lambda>op. None)) 1 demo_world))) = []"
  by (simp add: eval_defs)

text \<open>
  C1, amended. When the fetch succeeds with a non-empty list and every fault inside the
  per-order pipeline is of the class its stage handles (\<open>classified\<close>), \<open>process_orders\<close>
  returns \<open>True\<close> and has called \<open>update_order_status\<close> once for every order, in fetch order.
\<close>

theorem classified_faults_never_abort:
  assumes "classified svc"
    and "db_get_orders_by_user svc user_id (ext w) = (Inr orders, e1)"
    and "orders \<noteq> []"
  shows "fst (process_orders svc user_id w) = True
       \<and> update_ids (calls (snd (process_orders svc user_id w))) =
           update_ids (calls w) @ map (\<lambda>a. id' (heap w a)) orders"
proof -
  obtain b w' where p: "process_orders svc user_id w = (b, w')"
    by (cases "process_orders svc user_id w")
  have b: b using process_orders_result(3)[OF p assms(2) assms(1) refl assms(3)] .
  from process_orders_result(2)[OF p assms(2) b]
  have "update_ids (calls w') = update_ids (calls w) @ map (\<lambda>a. id' (heap w a)) orders"
    by auto
  then show ?thesis using p b by simp
qed

theorem classified_faults_never_abort_witness:
  "classified (demo_services (Inr [1, 2, 3, 5]) (Inl APIException) (Inl DatabaseException) (\<lambda>op. Some IOError))
   \<and> fst (process_orders
        (demo_services (Inr [1, 2, 3, 5]) (Inl APIException) (Inl DatabaseException) (\<lambda>op. Some IOError))
        1 demo_world) = True
   \<and> update_ids (calls (snd (process_orders
        (demo_services (Inr [1, 2, 3, 5]) (Inl APIException) (Inl DatabaseException) (\<lambda>op. Some IOError))
        1 demo_world))) = [1, 2, 3, 5]"
proof -
  let ?svc = "demo_services (Inr [1, 2, 3, 5]) (Inl APIException) (Inl DatabaseException) (\<lambda>op. Some IOError)"
  have c: "classified ?svc" by (simp add: classified_def demo_services_def)
  have f: "db_get_orders_by_user ?svc 1 (ext demo_world) = (Inr [1, 2, 3, 5], ())"
    by (simp add: demo_services_def)
  have n: "[1, 2, 3, 5 :: ref] \<noteq> []" by simp
  show ?thesis
    using c classified_faults_never_abort[OF c f n]
    by (simp add: demo_world_def demo_heap_def Order_init_def)
qed

text \<open>
  C2, as stated, fails for \<open>NaN\<close>: every comparison with \<open>NaN\<close> is false, so a \<open>success\<close>
  response whose payload is \<open>NaN\<close> reaches \<open>error\<close> although \<open>data \<ge> 50\<close> does not hold (nor,
  here, \<open>amount \<ge> 100\<close>).
\<close>

theorem nan_payload_reaches_error:
  "status (heap (snd (process_type_b_order
      (demo_services (Inr [2]) (Inr (APIResponse ''success'' (Some NaN))) (Inr True) (\<lambda>op. None))
      2 demo_world)) 2) = ''error''
   \<and> \<not> py_ge NaN (Fin 50)
   \<and> amount (heap demo_world 2) = Fin 50 \<and> \<not> py_ge (Fin 50) (Fin 100)
   \<and> flag (heap demo_world 2) = False"
  by (simp add: eval_defs py_ge_def)

text \<open>
  C2, amended. For a type-B order whose remote call returns a response with status \<open>success\<close>
  and a number \<open>d\<close> as payload, the type stage completes and sets the status to \<open>processed\<close>
  if \<open>d \<ge> 50\<close> and \<open>amount < 100\<close>, otherwise to \<open>pending\<close> if \<open>d < 50\<close> or the flag is set,
  otherwise to \<open>error\<close>, the comparisons being Python's; so when neither \<open>d\<close> nor the amount is
  \<open>NaN\<close>, \<open>error\<close> is reached exactly when \<open>d \<ge> 50\<close>, \<open>amount \<ge> 100\<close> and the flag is not set. A
  response with another status gives \<open>api_error\<close>, and a raised \<open>APIException\<close> gives
  \<open>api_failure\<close>.
\<close>

theorem type_b_status_rules:
  assumes "api_call_api svc (id' (heap w a)) (ext w) = (out, e')"
  shows "(out = Inr (APIResponse ''success'' (Some d)) \<longrightarrow>
            fst (process_type_b_order svc a w) = None \<and>
            status (heap (snd (process_type_b_order svc a w)) a) =
              (if py_ge d (Fin 50) \<and> py_lt (amount (heap w a)) (Fin 100) then ''processed''
               else if py_lt d (Fin 50) \<or> flag (heap w a) then ''pending'' else ''error'') \<and>
            (d \<noteq> NaN \<and> amount (heap w a) \<noteq> NaN \<longrightarrow>
               (status (heap (snd (process_type_b_order svc a w)) a) = ''error'' \<longleftrightarrow>
                  py_ge d (Fin 50) \<and> py_ge (amount (heap w a)) (Fin 100) \<and> \<not> flag (heap w a))))
       \<and> (out = Inr (APIResponse s p) \<and> s \<noteq> ''success'' \<longrightarrow>
            fst (process_type_b_order svc a w) = None \<and>
            status (heap (snd (process_type_b_order svc a w)) a) = ''api_error'')
       \<and> (out = Inl APIException \<longrightarrow>
            fst (process_type_b_order svc a w) = None \<and>
            status (heap (snd (process_type_b_order svc a w)) a) = ''api_failure'')"
proof -
  have 1: "fst (process_type_b_order svc a w) = None \<and>
           status (heap (snd (process_type_b_order svc a w)) a) =
              (if py_ge d (Fin 50) \<and> py_lt (amount (heap w a)) (Fin 100) then ''processed''
               else if py_lt d (Fin 50) \<or> flag (heap w a) then ''pending'' else ''error'')"
    if "out = Inr (APIResponse ''success'' (Some d))"
    using assms that
    by (simp add: process_type_b_order_def type_b_status_def try_except_def invoke_def set_status_def)
  have 2: "(if py_ge d (Fin 50) \<and> py_lt (amount (heap w a)) (Fin 100) then ''processed''
            else if py_lt d (Fin 50) \<or> flag (heap w a) then ''pending'' else ''error'') = ''error''
           \<longleftrightarrow> py_ge d (Fin 50) \<and> py_ge (amount (heap w a)) (Fin 100) \<and> \<not> flag (heap w a)"
    if "d \<noteq> NaN" "amount (heap w a) \<noteq> NaN"
    using that by (simp add: py_ge_lt_50 py_ge_lt_100)
  have 3: "fst (process_type_b_order svc a w) = None \<and>
           status (heap (snd (process_type_b_order svc a w)) a) = ''api_error''"
    if "out = Inr (APIResponse s p) \<and> s \<noteq> ''success''"
    using assms that
    by (simp add: process_type_b_order_def type_b_status_def try_except_def invoke_def set_status_def)
  have 4: "fst (process_type_b_order svc a w) = None \<and>
           status (heap (snd (process_type_b_order svc a w)) a) = ''api_failure''"
    if "out = Inl APIException"
    using assms that
    by (simp add: process_type_b_order_def try_except_def invoke_def set_status_def)
  show ?thesis using 1 2 3 4 by presburger
qed

theorem type_b_status_rules_witness:
  "status (heap (snd (process_type_b_order
      (demo_services (Inr [2]) (Inr (APIResponse ''success'' (Some (Fin 60)))) (Inr True) (\<lambda>op. None))
      2 demo_world)) 2) = ''processed''
   \<and> status (heap (snd (process_type_b_order
      (demo_services (Inr [2]) (Inr (APIResponse ''success'' (Some (Fin 40)))) (Inr True) (\<lambda>op. None))
      2 demo_world)) 2) = ''pending''
   \<and> status (heap (snd (process_type_b_order
      (demo_services (Inr [4]) (Inr (APIResponse ''success'' (Some (Fin 60)))) (Inr True) (\<lambda>op. None))
      4 demo_world)) 4) = ''error''
   \<and> status (heap (snd (process_type_b_order
      (demo_services (Inr [2]) (Inr (APIResponse ''error'' None)) (Inr True) (\<lambda>op. None))
      2 demo_world)) 2) = ''api_error''
   \<and> status (heap (snd (process_type_b_order
      (demo_services (Inr [2]) (Inl APIException) (Inr True) (\<lambda>op. None))
      2 demo_world)) 2) = ''api_failure''"
  using
    type_b_status_rules[where svc = "demo_services (Inr [2]) (Inr (APIResponse ''success'' (Some (Fin 60)))) (Inr True) (\<lambda>op. None)"
      and w = demo_world and a = 2 and out = "Inr (APIResponse ''success'' (Some (Fin 60)))" and e' = "()" and d = "Fin 60"]
    type_b_status_rules[where svc = "demo_services (Inr [2]) (Inr (APIResponse ''success'' (Some (Fin 40)))) (Inr True) (\<lambda>op. None)"
      and w = demo_world and a = 2 and out = "Inr (APIResponse ''success'' (Some (Fin 40)))" and e' = "()" and d = "Fin 40"]
    type_b_status_rules[where svc = "demo_services (Inr [4]) (Inr (APIResponse ''success'' (Some (Fin 60)))) (Inr True) (\<lambda>op. None)"
      and w = demo_world and a = 4 and out = "Inr (APIResponse ''success'' (Some (Fin 60)))" and e' = "()" and d = "Fin 60"]
    type_b_status_rules[where svc = "demo_services (Inr [2]) (Inr (APIResponse ''error'' None)) (Inr True) (\<lambda>op. None)"
      and w = demo_world and a = 2 and out = "Inr (APIResponse ''error'' None)" and e' = "()" and s = "''error''" and p = None]
    type_b_status_rules[where svc = "demo_services (Inr [2]) (Inl APIException) (Inr True) (\<lambda>op. None)"
      and w = demo_world and a = 2 and out = "Inl APIException" and e' = "()"]
  by (simp add: demo_services_def demo_world_def demo_heap_def Order_init_def py_ge_def)

text \<open>
  C3. When the call of \<open>update_order_status\<close> on the repository raises \<open>DatabaseException\<close>,
  the persistence step completes, the status of the order becomes \<open>db_error\<close> whatever it
  was, and the priority stays. The second part is the same for the two last steps of the
  pipeline together: the priority that the priority stage assigns is the one that stays.
\<close>

theorem persistence_error_overwrites_status:
  "(db_update_order_status svc (id' (heap w a)) (status (heap w a)) (priority (heap w a)) (ext w)
      = (Inl DatabaseException, e1) \<longrightarrow>
      fst (update_order_status svc a w) = None
      \<and> status (heap (snd (update_order_status svc a w)) a) = ''db_error''
      \<and> priority (heap (snd (update_order_status svc a w)) a) = priority (heap w a))
   \<and> (db_update_order_status svc (id' (heap w a)) (status (heap w a))
        (if py_gt (amount (heap w a)) (Fin 200) then ''high'' else ''low'') (ext w)
      = (Inl DatabaseException, e1) \<longrightarrow>
      fst (seq (set_order_priority a) (update_order_status svc a) w) = None
      \<and> status (heap (snd (seq (set_order_priority a) (update_order_status svc a) w)) a) = ''db_error''
      \<and> priority (heap (snd (seq (set_order_priority a) (update_order_status svc a) w)) a) =
          (if py_gt (amount (heap w a)) (Fin 200) then ''high'' else ''low''))"
  by (auto simp: update_order_status_def try_except_def invoke_def set_status_def seq_def
       set_order_priority_def set_priority_def)

theorem persistence_error_overwrites_status_witness:
  "status (heap (snd (update_order_status
      (demo_services (Inr [3]) (Inl APIException) (Inl DatabaseException) (\<lambda>op. None))
      3 (snd (process_type_c_order 3 demo_world)))) 3) = ''db_error''
   \<and> status (heap (snd (process_type_c_order 3 (demo_world :: unit world))) 3) = ''completed''
   \<and> status (heap (snd (seq (set_order_priority 1) (update_order_status
      (demo_services (Inr [1]) (Inl APIException) (Inl DatabaseException) (\<lambda>op. None)) 1)
      demo_world)) 1) = ''db_error''
   \<and> priority (heap (snd (seq (set_order_priority 1) (update_order_status
      (demo_services (Inr [1]) (Inl APIException) (Inl DatabaseException) (\<lambda>op. None)) 1)
      demo_world)) 1) = ''high''"
  using
    persistence_error_overwrites_status[of
      "demo_services (Inr [3]) (Inl APIException) (Inl DatabaseException) (\<lambda>op. None)"
      "snd (process_type_c_order 3 demo_world)" 3 "()"]
    persistence_error_overwrites_status[of
      "demo_services (Inr [1]) (Inl APIException) (Inl DatabaseException) (\<lambda>op. None)"
      demo_world 1 "()"]
  by (simp add: demo_services_def demo_world_def demo_heap_def Order_init_def
       process_type_c_order_def set_status_def py_gt_def)

text \<open>
  C4, as stated, fails: a call can return with orders left at \<open>new\<close>. Here the remote
  service answers \<open>success\<close> without a payload, the comparison raises \<open>TypeError\<close>, the
  call returns \<open>False\<close>, and both orders of the batch keep \<open>new\<close>.
\<close>

theorem escaped_fault_leaves_new:
  "fst (process_orders
      (demo_services (Inr [2, 3]) (Inr (APIResponse ''success'' None)) (Inr True) (\<lambda>op. None))
      1 demo_world) = False
   \<and> status (heap (snd (process_orders
      (demo_services (Inr [2, 3]) (Inr (APIResponse ''success'' None)) (Inr True) (\<lambda>op. None))
      1 demo_world)) 2) = ''new''
   \<and> status (heap (snd (process_orders
      (demo_services (Inr [2, 3]) (Inr (APIResponse ''success'' None)) (Inr True) (\<lambda>op. None))
      1 demo_world)) 3) = ''new''
   \<and> ''new'' \<notin> terminal_statuses"
  by (simp add: eval_defs terminal_statuses_def)

text \<open>
  C4, amended. Whenever \<open>process_orders\<close> returns \<open>True\<close>, the status of every order of the
  fetched list is one of the enumerated terminal values, and so is not \<open>new\<close>.
\<close>

theorem completed_batch_statuses_terminal:
  assumes "process_orders svc user_id w = (True, w')"
    and "db_get_orders_by_user svc user_id (ext w) = (Inr orders, e1)"
  shows "\<forall>a\<in>set orders. status (heap w' a) \<in> terminal_statuses \<and> status (heap w' a) \<noteq> ''new''"
proof -
  from process_orders_result(2)[OF assms(1) assms(2)]
  have "\<forall>a\<in>set orders. status (heap w' a) \<in> terminal_statuses" by auto
  moreover have "''new'' \<notin> terminal_statuses" by (simp add: terminal_statuses_def)
  ultimately show ?thesis by metis
qed

theorem completed_batch_statuses_terminal_witness:
  "process_orders
      (demo_services (Inr [1, 2, 3, 5]) (Inr (APIResponse ''success'' (Some (Fin 60)))) (Inr True) (\<lambda>op. None))
      1 demo_world
    = (True, snd (process_orders
      (demo_services (Inr [1, 2, 3, 5]) (Inr (APIResponse ''success'' (Some (Fin 60)))) (Inr True) (\<lambda>op. None))
      1 demo_world))
   \<and> status (heap (snd (process_orders
      (demo_services (Inr [1, 2, 3, 5]) (Inr (APIResponse ''success'' (Some (Fin 60)))) (Inr True) (\<lambda>op. None))
      1 demo_world)) 5) \<in> terminal_statuses
   \<and> status (heap (snd (process_orders
      (demo_services (Inr [1, 2, 3, 5]) (Inr (APIResponse ''success'' (Some (Fin 60)))) (Inr True) (\<lambda>op. None))
      1 demo_world)) 1) \<noteq> ''new''"
proof -
  let ?svc = "demo_services (Inr [1, 2, 3, 5]) (Inr (APIResponse ''success'' (Some (Fin 60)))) (Inr True) (\<lambda>op. None)"
  have t: "fst (process_orders ?svc 1 demo_world) = True" by (simp add: eval_defs)
  then have p: "process_orders ?svc 1 demo_world = (True, snd (process_orders ?svc 1 demo_world))"
    by (metis prod.collapse)
  have f: "db_get_orders_by_user ?svc 1 (ext demo_world) = (Inr [1, 2, 3, 5], ())"
    by (simp add: demo_services_def)
  show ?thesis using p completed_batch_statuses_terminal[OF p f] by simp
qed

text \<open>
  C5. The priority stage sets the priority to \<open>high\<close> when \<open>amount > 200\<close> and to \<open>low\<close>
  otherwise (so at 200, and for \<open>NaN\<close>), whatever it was before. In the pipeline of an order
  of any type the stage runs after the type stage and before persistence: whenever the
  pipeline reaches the status update, that update is its last call and carries the priority
  the rule gives, which is the priority the order then has; and the export of a type-A order
  that goes through without an exception has written the priority the order had before the
  pipeline, while the order ends with the priority the rule gives.
\<close>

theorem priority_assignment:
  "set_order_priority a w =
     (None, w\<lparr>heap := (heap w)(a := (heap w a)
        \<lparr>priority := (if py_gt (amount (heap w a)) (Fin 200) then ''high'' else ''low'')\<rparr>)\<rparr>)
   \<and> (process_order svc a user_id w = (r, w') \<and> calls w' = calls w @ cs
        \<and> (r = None \<or> update_ids cs \<noteq> []) \<longrightarrow>
        priority (heap w' a) = (if py_gt (amount (heap w a)) (Fin 200) then ''high'' else ''low'')
        \<and> (\<exists>s e. last cs = (Update_order_status (id' (heap w a)) s
              (if py_gt (amount (heap w a)) (Fin 200) then ''high'' else ''low''), e)))
   \<and> (process_order svc a user_id w = (r, w') \<and> calls w' = calls w @ cs
        \<and> type' (heap w a) = ''A'' \<and> time_time svc (ext w) = (t, e1)
        \<and> (\<forall>c\<in>set cs. snd c = None) \<longrightarrow>
        r = None
        \<and> files w' (csv_name user_id t) =
            Some ([CStr ''ID'', CStr ''Type'', CStr ''Amount'', CStr ''Flag'', CStr ''Status'',
                   CStr ''Priority'']
                # [CInt (id' (heap w a)), CStr (type' (heap w a)), CNum (amount (heap w a)),
                   CStr (if flag (heap w a) then ''true'' else ''false''),
                   CStr (status (heap w a)), CStr (priority (heap w a))]
                # (if py_gt (amount (heap w a)) (Fin 150)
                   then [[CStr [], CStr [], CStr [], CStr [], CStr ''Note'', CStr ''High value order'']]
                   else []))
        \<and> priority (heap w' a) = (if py_gt (amount (heap w a)) (Fin 200) then ''high'' else ''low''))"
proof (intro conjI impI)
  show "set_order_priority a w =
     (None, w\<lparr>heap := (heap w)(a := (heap w a)
        \<lparr>priority := (if py_gt (amount (heap w a)) (Fin 200) then ''high'' else ''low'')\<rparr>)\<rparr>)"
    by (rule set_order_priority_result)
next
  let ?P = "if py_gt (amount (heap w a)) (Fin 200) then ''high'' else ''low''"
  assume a: "process_order svc a user_id w = (r, w') \<and> calls w' = calls w @ cs
        \<and> (r = None \<or> update_ids cs \<noteq> [])"
  then have p: "process_order svc a user_id w = (r, w')" by simp
  from process_order_log[OF p] obtain cs' where l:
    "calls w' = calls w @ cs'"
    "(update_ids cs' = [] \<and> r \<noteq> None \<and> heap w' = heap w) \<or>
     (\<exists>cs1 s e. cs' = cs1 @ [(Update_order_status (id' (heap w a)) s ?P, e)]
        \<and> heap w' = (heap w)(a := (heap w a)
             \<lparr>status := (if e = Some DatabaseException then ''db_error'' else s), priority := ?P\<rparr>))"
    by blast
  have eq: "cs' = cs" using l(1) a by simp
  have "\<not> (update_ids cs' = [] \<and> r \<noteq> None)" using a eq by blast
  then obtain cs1 s e where c: "cs = cs1 @ [(Update_order_status (id' (heap w a)) s ?P, e)]"
    "heap w' = (heap w)(a := (heap w a)
             \<lparr>status := (if e = Some DatabaseException then ''db_error'' else s), priority := ?P\<rparr>)"
    using l(2) eq by blast
  show "priority (heap w' a) = ?P" using c(2) by simp
  show "\<exists>s e. last cs = (Update_order_status (id' (heap w a)) s ?P, e)" using c(1) by simp
next
  let ?P = "if py_gt (amount (heap w a)) (Fin 200) then ''high'' else ''low''"
  let ?n = "csv_name user_id t"
  assume a: "process_order svc a user_id w = (r, w') \<and> calls w' = calls w @ cs
        \<and> type' (heap w a) = ''A'' \<and> time_time svc (ext w) = (t, e1)
        \<and> (\<forall>c\<in>set cs. snd c = None)"
  then have p: "process_order svc a user_id w = (r, w')" and ty: "type' (heap w a) = ''A''"
    and tt: "time_time svc (ext w) = (t, e1)" and cw: "calls w' = calls w @ cs"
    and ok: "\<forall>c\<in>set cs. snd c = None" by simp_all
  have "r = None \<and> priority (heap w' a) = ?P \<and>
        files w' ?n = Some (header_row # data_row (heap w a)
           # (if py_gt (amount (heap w a)) (Fin 150) then [note_row] else []))"
    using p
  proof (cases rule: process_order_unfold)
    case (raised x w1)
    then have pa: "process_type_a_order svc a user_id w = (Some x, w1)" using ty by simp
    from type_a_result[OF pa tt] obtain csa where
      "calls w1 = calls w @ csa" "Some x \<in> snd ` set csa" by auto
    then have "Some x \<in> snd ` set cs" using raised(3) cw by simp
    then show ?thesis using ok by force
  next
    case (completed w1)
    then have pa: "process_type_a_order svc a user_id w = (None, w1)" using ty by simp
    from type_a_result[OF pa tt] obtain csa st where ta:
      "calls w1 = calls w @ csa"
      "heap w1 = (heap w)(a := (heap w a)\<lparr>status := st\<rparr>)"
      "(\<forall>c\<in>set csa. snd c = None) \<longrightarrow>
         files w1 = fold io_effect (Open ?n # export_ops ?n (heap w a) @ [Close ?n]) (files w)"
      by auto
    let ?w2 = "w1\<lparr>heap := (heap w)(a := (heap w a)\<lparr>status := st, priority := ?P\<rparr>)\<rparr>"
    have u: "update_order_status svc a ?w2 = (r, w')" using completed(2) ta(2) by simp
    obtain out e2 where o:
      "db_update_order_status svc (id' (heap ?w2 a)) (status (heap ?w2 a)) (priority (heap ?w2 a)) (ext ?w2)
         = (out, e2)"
      by (cases "db_update_order_status svc (id' (heap ?w2 a)) (status (heap ?w2 a)) (priority (heap ?w2 a)) (ext ?w2)")
    note ur = update_result[OF u o]
    let ?e = "case out of Inl x \<Rightarrow> Some x | Inr _ \<Rightarrow> None"
    have "calls w' = calls w @ (csa @ [(Update_order_status (id' (heap w a)) st ?P, ?e)])"
      using ur(1) ta(1) by simp
    then have cs: "cs = csa @ [(Update_order_status (id' (heap w a)) st ?P, ?e)]" using cw by simp
    then have e: "?e = None" and oka: "\<forall>c\<in>set csa. snd c = None" using ok by simp_all
    then obtain b where out: "out = Inr b" by (cases out) auto
    have r: "r = None" using ur(3) out by simp
    have pr: "priority (heap w' a) = ?P" using ur(2) out by simp
    have "files w' = fold io_effect (Open ?n # export_ops ?n (heap w a) @ [Close ?n]) (files w)"
      using ur(4) ta(3) oka by simp
    then have "files w' ?n = Some (header_row # data_row (heap w a)
           # (if py_gt (amount (heap w a)) (Fin 150) then [note_row] else []))"
      by (simp add: export_ops_def)
    then show ?thesis using r pr by simp
  qed
  then show "r = None"
    and "priority (heap w' a) = ?P"
    and "files w' (csv_name user_id t) =
            Some ([CStr ''ID'', CStr ''Type'', CStr ''Amount'', CStr ''Flag'', CStr ''Status'',
                   CStr ''Priority'']
                # [CInt (id' (heap w a)), CStr (type' (heap w a)), CNum (amount (heap w a)),
                   CStr (if flag (heap w a) then ''true'' else ''false''),
                   CStr (status (heap w a)), CStr (priority (heap w a))]
                # (if py_gt (amount (heap w a)) (Fin 150)
                   then [[CStr [], CStr [], CStr [], CStr [], CStr ''Note'', CStr ''High value order'']]
                   else []))"
    by (auto simp: header_row_def data_row_def note_row_def lower_str_bool)
qed

theorem priority_assignment_witness:
  "priority (heap demo_world 1) = ''low'' \<and> amount (heap demo_world 1) = Fin 250
   \<and> priority (heap (snd (process_order
        (demo_services (Inr [1]) (Inl APIException) (Inr True) (\<lambda>op. None)) 1 7 demo_world)) 1) = ''high''
   \<and> files (snd (process_order
        (demo_services (Inr [1]) (Inl APIException) (Inr True) (\<lambda>op. None)) 1 7 demo_world))
        (csv_name 7 1700000000) =
      Some [[CStr ''ID'', CStr ''Type'', CStr ''Amount'', CStr ''Flag'', CStr ''Status'', CStr ''Priority''],
            [CInt 1, CStr ''A'', CNum (Fin 250), CStr ''false'', CStr ''new'', CStr ''low''],
            [CStr [], CStr [], CStr [], CStr [], CStr ''Note'', CStr ''High value order'']]
   \<and> last (calls (snd (process_order
        (demo_services (Inr [1]) (Inl APIException) (Inr True) (\<lambda>op. None)) 1 7 demo_world)))
      = (Update_order_status 1 ''exported'' ''high'', None)
   \<and> amount (heap demo_world 5) = Fin 200
   \<and> priority (heap (snd (process_order
        (demo_services (Inr [5]) (Inl APIException) (Inr True) (\<lambda>op. None)) 5 7
        (snd (set_priority 5 ''high'' demo_world)))) 5) = ''low''"
proof -
  let ?svc = "demo_services (Inr [1]) (Inl APIException) (Inr True) (\<lambda>op. None)"
  let ?svc5 = "demo_services (Inr [5]) (Inl APIException) (Inr True) (\<lambda>op. None)"
  let ?n = "csv_name 7 1700000000"
  let ?cs = "[(File_op (Open ?n), None), (File_op (Write ?n header_row), None),
              (File_op (Write ?n (data_row (demo_heap 1))), None),
              (File_op (Write ?n note_row), None), (File_op (Close ?n), None),
              (Update_order_status 1 ''exported'' ''high'', None)]"
  let ?w5 = "snd (set_priority 5 ''high'' demo_world)"
  let ?cs5 = "[(Update_order_status 5 ''unknown_type'' ''low'', None :: exn option)]"
  have p: "process_order ?svc 1 7 demo_world =
             (fst (process_order ?svc 1 7 demo_world), snd (process_order ?svc 1 7 demo_world))"
    by simp
  have c: "calls (snd (process_order ?svc 1 7 demo_world)) = calls demo_world @ ?cs"
    by (simp add: eval_defs py_gt_def)
  have n: "\<forall>c\<in>set ?cs. snd c = None" by simp
  have ty: "type' (heap demo_world 1) = ''A''" by (simp add: demo_world_def demo_heap_def Order_init_def)
  have t: "time_time ?svc (ext demo_world) = (1700000000, ())" by (simp add: demo_services_def)
  have u: "update_ids ?cs \<noteq> []" by simp
  have p5: "process_order ?svc5 5 7 ?w5 =
             (fst (process_order ?svc5 5 7 ?w5), snd (process_order ?svc5 5 7 ?w5))"
    by simp
  have c5: "calls (snd (process_order ?svc5 5 7 ?w5)) = calls ?w5 @ ?cs5"
    by (simp add: eval_defs py_gt_def)
  have u5: "update_ids ?cs5 \<noteq> []" by simp
  note th1 = priority_assignment[of 1 demo_world ?svc 7 "fst (process_order ?svc 1 7 demo_world)"
      "snd (process_order ?svc 1 7 demo_world)" ?cs 1700000000 "()"]
  note th5 = priority_assignment[of 5 ?w5 ?svc5 7 "fst (process_order ?svc5 5 7 ?w5)"
      "snd (process_order ?svc5 5 7 ?w5)" ?cs5 1700000000 "()"]
  have a1: "priority (heap (snd (process_order ?svc 1 7 demo_world)) 1) = ''high''"
    and f1: "files (snd (process_order ?svc 1 7 demo_world)) ?n =
      Some [[CStr ''ID'', CStr ''Type'', CStr ''Amount'', CStr ''Flag'', CStr ''Status'', CStr ''Priority''],
            [CInt 1, CStr ''A'', CNum (Fin 250), CStr ''false'', CStr ''new'', CStr ''low''],
            [CStr [], CStr [], CStr [], CStr [], CStr ''Note'', CStr ''High value order'']]"
    using th1 p c n ty t
    by (simp_all add: demo_world_def demo_heap_def Order_init_def py_gt_def)
  have a5: "priority (heap (snd (process_order ?svc5 5 7 ?w5)) 5) = ''low''"
    using th5 p5 c5 u5
    by (simp add: demo_world_def demo_heap_def Order_init_def py_gt_def set_priority_def)
  have l: "last (calls (snd (process_order ?svc 1 7 demo_world))) = (Update_order_status 1 ''exported'' ''high'', None)"
    using c by simp
  show ?thesis using a1 f1 a5 l
    by (simp add: demo_world_def demo_heap_def Order_init_def)
qed

text \<open>
  C6. When no file operation of the export of a type-A order raises, the stage completes
  with status \<open>exported\<close>, and the file holds the header row, one data row with the id,
  type, amount and lower-case flag of the order and with the status and priority it had
  before the stage (\<open>new\<close> and \<open>low\<close> for an order as its constructor made it), and then
  the annotation row exactly when \<open>amount > 150\<close>.
\<close>

theorem export_file_contents:
  assumes "process_type_a_order svc a user_id w = (r, w')"
    and "time_time svc (ext w) = (t, e1)"
    and "calls w' = calls w @ cs"
    and "\<forall>c\<in>set cs. snd c = None"
  shows "r = None \<and> status (heap w' a) = ''exported''
       \<and> files w' (csv_name user_id t) =
           Some ([CStr ''ID'', CStr ''Type'', CStr ''Amount'', CStr ''Flag'', CStr ''Status'',
                  CStr ''Priority'']
               # [CInt (id' (heap w a)), CStr (type' (heap w a)), CNum (amount (heap w a)),
                  CStr (if flag (heap w a) then ''true'' else ''false''),
                  CStr (status (heap w a)), CStr (priority (heap w a))]
               # (if py_gt (amount (heap w a)) (Fin 150)
                  then [[CStr [], CStr [], CStr [], CStr [], CStr ''Note'', CStr ''High value order'']]
                  else []))
       \<and> (heap w a = Order_init i ty am fl \<longrightarrow>
            files w' (csv_name user_id t) =
              Some ([CStr ''ID'', CStr ''Type'', CStr ''Amount'', CStr ''Flag'', CStr ''Status'',
                     CStr ''Priority'']
                  # [CInt i, CStr ty, CNum am, CStr (if fl then ''true'' else ''false''),
                     CStr ''new'', CStr ''low'']
                  # (if py_gt am (Fin 150)
                     then [[CStr [], CStr [], CStr [], CStr [], CStr ''Note'', CStr ''High value order'']]
                     else [])))"
proof -
  let ?n = "csv_name user_id t"
  from type_a_result[OF assms(1,2)] obtain cs' st where t:
    "calls w' = calls w @ cs'"
    "heap w' = (if r = None then (heap w)(a := (heap w a)\<lparr>status := st\<rparr>) else heap w)"
    "st = (if \<forall>c\<in>set cs'. snd c = None then ''exported'' else ''export_failed'')"
    "(\<forall>c\<in>set cs'. snd c = None \<or> snd c = Some IOError) \<longrightarrow> r = None"
    "(\<forall>c\<in>set cs'. snd c = None) \<longrightarrow>
       files w' = fold io_effect (Open ?n # export_ops ?n (heap w a) @ [Close ?n]) (files w)"
    by blast
  have "cs' = cs" using t(1) assms(3) by simp
  then have ok: "\<forall>c\<in>set cs'. snd c = None" using assms(4) by simp
  have r: "r = None" using t(4) ok by simp
  have s: "status (heap w' a) = ''exported''" using t(2,3) r ok by simp
  have "files w' ?n = fold io_effect (Open ?n # export_ops ?n (heap w a) @ [Close ?n]) (files w) ?n"
    using t(5) ok by simp
  then have f: "files w' ?n =
      Some (header_row # data_row (heap w a) # (if py_gt (amount (heap w a)) (Fin 150) then [note_row] else []))"
    by (simp add: export_ops_def)
  show ?thesis using r s f
    by (auto simp: header_row_def data_row_def note_row_def lower_str_bool Order_init_def)
qed

theorem export_file_contents_witness:
  "files (snd (process_type_a_order
      (demo_services (Inr [1]) (Inl APIException) (Inr True) (\<lambda>op. None)) 1 7 demo_world))
     (csv_name 7 1700000000) =
     Some [[CStr ''ID'', CStr ''Type'', CStr ''Amount'', CStr ''Flag'', CStr ''Status'', CStr ''Priority''],
           [CInt 1, CStr ''A'', CNum (Fin 250), CStr ''false'', CStr ''new'', CStr ''low''],
           [CStr [], CStr [], CStr [], CStr [], CStr ''Note'', CStr ''High value order'']]
   \<and> status (heap (snd (process_type_a_order
      (demo_services (Inr [1]) (Inl APIException) (Inr True) (\<lambda>op. None)) 1 7 demo_world)) 1)
     = ''exported''
   \<and> csv_name 7 1700000000 = ''orders_type_A_7_1700000000.csv''"
proof -
  let ?svc = "demo_services (Inr [1]) (Inl APIException) (Inr True) (\<lambda>op. None)"
  let ?n = "csv_name 7 1700000000"
  let ?cs = "[(File_op (Open ?n), None), (File_op (Write ?n header_row), None),
              (File_op (Write ?n (data_row (demo_heap 1))), None),
              (File_op (Write ?n note_row), None), (File_op (Close ?n), None)]"
  have p: "process_type_a_order ?svc 1 7 demo_world =
             (fst (process_type_a_order ?svc 1 7 demo_world), snd (process_type_a_order ?svc 1 7 demo_world))"
    by simp
  have t: "time_time ?svc (ext demo_world) = (1700000000, ())" by (simp add: demo_services_def)
  have c: "calls (snd (process_type_a_order ?svc 1 7 demo_world)) = calls demo_world @ ?cs"
    by (simp add: eval_defs)
  have n: "\<forall>c\<in>set ?cs. snd c = None" by simp
  have name: "?n = ''orders_type_A_7_1700000000.csv''"
    by (simp add: csv_name_def str_int_def py_int_def str_nat.simps)
  show ?thesis
    using export_file_contents[OF p t c n, of 1 "''A''" "Fin 250" False] name
    by (simp add: demo_world_def demo_heap_def Order_init_def py_gt_def)
qed

text \<open>
  C7. When a file operation of the export of a type-A order raises \<open>IOError\<close>, and none
  raises anything else, the stage completes with status \<open>export_failed\<close>. The failure is
  local: the pipeline of the order goes on, its last call persists the status
  \<open>export_failed\<close>, and the order ends with that status. And \<open>process_orders\<close> still returns
  \<open>True\<close> for the batch: it does so whenever the faults are of the classes their stages
  handle, and when moreover every export fails and the status update does not raise,
  every type-A order of the batch ends with status \<open>export_failed\<close>.
\<close>

theorem export_failure_is_local:
  "(process_type_a_order svc a user_id w = (r, w') \<and> calls w' = calls w @ cs
      \<and> (File_op op, Some IOError) \<in> set cs
      \<and> (\<forall>c\<in>set cs. snd c = None \<or> snd c = Some IOError)
    \<longrightarrow> r = None \<and> status (heap w' a) = ''export_failed'')
   \<and> (process_order svc a user_id w = (r, w') \<and> calls w' = calls w @ cs
      \<and> type' (heap w a) = ''A''
      \<and> (File_op op, Some IOError) \<in> set cs
      \<and> (\<forall>c\<in>set cs. snd c = None \<or> (\<exists>op'. c = (File_op op', Some IOError)))
    \<longrightarrow> r = None \<and> status (heap w' a) = ''export_failed''
        \<and> last cs = (Update_order_status (id' (heap w a)) ''export_failed''
             (if py_gt (amount (heap w a)) (Fin 200) then ''high'' else ''low''), None))
   \<and> (classified svc \<and> db_get_orders_by_user svc user_id (ext w) = (Inr orders, e1) \<and> orders \<noteq> []
    \<longrightarrow> fst (process_orders svc user_id w) = True
        \<and> (export_always_fails svc \<and> update_never_raises svc \<longrightarrow>
             (\<forall>b\<in>set orders. type' (heap w b) = ''A'' \<longrightarrow>
                status (heap (snd (process_orders svc user_id w)) b) = ''export_failed'')))"
proof (intro conjI impI)
  assume a: "process_type_a_order svc a user_id w = (r, w') \<and> calls w' = calls w @ cs
      \<and> (File_op op, Some IOError) \<in> set cs
      \<and> (\<forall>c\<in>set cs. snd c = None \<or> snd c = Some IOError)"
  obtain t e1 where tt: "time_time svc (ext w) = (t, e1)" by (cases "time_time svc (ext w)")
  from a have p: "process_type_a_order svc a user_id w = (r, w')" by simp
  from type_a_result[OF p tt] obtain cs' st where t:
    "calls w' = calls w @ cs'"
    "heap w' = (if r = None then (heap w)(a := (heap w a)\<lparr>status := st\<rparr>) else heap w)"
    "st = (if \<forall>c\<in>set cs'. snd c = None then ''exported'' else ''export_failed'')"
    "(\<forall>c\<in>set cs'. snd c = None \<or> snd c = Some IOError) \<longrightarrow> r = None"
    by blast
  have eq: "cs' = cs" using t(1) a by simp
  have "\<not> (\<forall>c\<in>set cs. snd c = None)" using a by force
  then have st: "st = ''export_failed''" using t(3) eq by simp
  show "r = None" using t(4) eq a by simp
  then show "status (heap w' a) = ''export_failed''" using t(2) st by simp
next
  let ?P = "if py_gt (amount (heap w a)) (Fin 200) then ''high'' else ''low''"
  assume a: "process_order svc a user_id w = (r, w') \<and> calls w' = calls w @ cs
      \<and> type' (heap w a) = ''A''
      \<and> (File_op op, Some IOError) \<in> set cs
      \<and> (\<forall>c\<in>set cs. snd c = None \<or> (\<exists>op'. c = (File_op op', Some IOError)))"
  then have p: "process_order svc a user_id w = (r, w')" and ty: "type' (heap w a) = ''A''"
    and cw: "calls w' = calls w @ cs" and io: "(File_op op, Some IOError) \<in> set cs"
    and ok: "\<forall>c\<in>set cs. snd c = None \<or> (\<exists>op'. c = (File_op op', Some IOError))" by simp_all
  obtain t e1 where tt: "time_time svc (ext w) = (t, e1)" by (cases "time_time svc (ext w)")
  have "r = None \<and> status (heap w' a) = ''export_failed''
        \<and> last cs = (Update_order_status (id' (heap w a)) ''export_failed'' ?P, None)"
    using p
  proof (cases rule: process_order_unfold)
    case (raised x w1)
    then have pa: "process_type_a_order svc a user_id w = (Some x, w1)" using ty by simp
    from type_a_result[OF pa tt] obtain csa where
      "calls w1 = calls w @ csa" "x \<noteq> IOError" "Some x \<in> snd ` set csa" by auto
    then have "x \<noteq> IOError" "Some x \<in> snd ` set cs" using raised(3) cw by simp_all
    then show ?thesis using ok by force
  next
    case (completed w1)
    then have pa: "process_type_a_order svc a user_id w = (None, w1)" using ty by simp
    from type_a_result[OF pa tt] obtain csa st where ta:
      "calls w1 = calls w @ csa"
      "heap w1 = (heap w)(a := (heap w a)\<lparr>status := st\<rparr>)"
      "st = (if \<forall>c\<in>set csa. snd c = None then ''exported'' else ''export_failed'')"
      by auto
    let ?w2 = "w1\<lparr>heap := (heap w)(a := (heap w a)\<lparr>status := st, priority := ?P\<rparr>)\<rparr>"
    have u: "update_order_status svc a ?w2 = (r, w')" using completed(2) ta(2) by simp
    obtain out e2 where o:
      "db_update_order_status svc (id' (heap ?w2 a)) (status (heap ?w2 a)) (priority (heap ?w2 a)) (ext ?w2)
         = (out, e2)"
      by (cases "db_update_order_status svc (id' (heap ?w2 a)) (status (heap ?w2 a)) (priority (heap ?w2 a)) (ext ?w2)")
    note ur = update_result[OF u o]
    let ?e = "case out of Inl x \<Rightarrow> Some x | Inr _ \<Rightarrow> None"
    have "calls w' = calls w @ (csa @ [(Update_order_status (id' (heap w a)) st ?P, ?e)])"
      using ur(1) ta(1) by simp
    then have cs: "cs = csa @ [(Update_order_status (id' (heap w a)) st ?P, ?e)]" using cw by simp
    have e: "?e = None" using ok cs by auto
    then obtain b where out: "out = Inr b" by (cases out) auto
    have "(File_op op, Some IOError) \<in> set csa" using io cs by auto
    then have "\<not> (\<forall>c\<in>set csa. snd c = None)" by force
    then have st: "st = ''export_failed''" using ta(3) by simp
    have "r = None" using ur(3) out by simp
    moreover have "status (heap w' a) = ''export_failed''" using ur(2) out st by simp
    moreover have "last cs = (Update_order_status (id' (heap w a)) ''export_failed'' ?P, None)"
      using cs e st by simp
    ultimately show ?thesis by simp
  qed
  then show "r = None" and "status (heap w' a) = ''export_failed''"
    and "last cs = (Update_order_status (id' (heap w a)) ''export_failed'' ?P, None)"
    by simp_all
next
  assume a: "classified svc \<and> db_get_orders_by_user svc user_id (ext w) = (Inr orders, e1) \<and> orders \<noteq> []"
  obtain b w' where p: "process_orders svc user_id w = (b, w')"
    by (cases "process_orders svc user_id w")
  have b using process_orders_result(3)[OF p, of "Inr orders" e1 orders] a by simp
  then show "fst (process_orders svc user_id w) = True" using p by simp
next
  assume a: "classified svc \<and> db_get_orders_by_user svc user_id (ext w) = (Inr orders, e1) \<and> orders \<noteq> []"
    and h: "export_always_fails svc \<and> update_never_raises svc"
  let ?w0 = "w\<lparr>ext := e1, calls := calls w @ [(Get_orders_by_user user_id, None)]\<rparr>"
  obtain rr w' where f: "for_orders svc user_id orders ?w0 = (rr, w')"
    by (cases "for_orders svc user_id orders ?w0")
  have u: "snd (process_orders svc user_id w) = w'"
    using process_orders_unfold[of svc user_id w orders e1] a f by simp
  from for_orders_export_failed[OF _ _ _ f] a h
  have "\<forall>b. type' (heap ?w0 b) = ''A'' \<longrightarrow> b \<in> set orders \<longrightarrow> status (heap w' b) = ''export_failed''"
    by blast
  then show "\<forall>b\<in>set orders. type' (heap w b) = ''A'' \<longrightarrow>
                status (heap (snd (process_orders svc user_id w)) b) = ''export_failed''"
    using u by simp
qed

theorem export_failure_is_local_witness:
  "status (heap (snd (process_type_a_order
      (demo_services (Inr [1, 3]) (Inl APIException) (Inr True)
         (\<lambda>op. case op of Write n row \<Rightarrow> Some IOError | _ \<Rightarrow> None)) 1 7 demo_world)) 1)
     = ''export_failed''
   \<and> status (heap (snd (process_order
      (demo_services (Inr [1, 3]) (Inl APIException) (Inr True)
         (\<lambda>op. case op of Write n row \<Rightarrow> Some IOError | _ \<Rightarrow> None)) 1 7 demo_world)) 1)
     = ''export_failed''
   \<and> last (calls (snd (process_order
      (demo_services (Inr [1, 3]) (Inl APIException) (Inr True)
         (\<lambda>op. case op of Write n row \<Rightarrow> Some IOError | _ \<Rightarrow> None)) 1 7 demo_world)))
     = (Update_order_status 1 ''export_failed'' ''high'', None)
   \<and> fst (process_orders
      (demo_services (Inr [1, 3]) (Inl APIException) (Inr True)
         (\<lambda>op. case op of Write n row \<Rightarrow> Some IOError | _ \<Rightarrow> None)) 7 demo_world) = True
   \<and> status (heap (snd (process_orders
      (demo_services (Inr [1, 3]) (Inl APIException) (Inr True)
         (\<lambda>op. case op of Write n row \<Rightarrow> Some IOError | _ \<Rightarrow> None)) 7 demo_world)) 1)
     = ''export_failed''"
proof -
  let ?svc = "demo_services (Inr [1, 3]) (Inl APIException) (Inr True)
         (\<lambda>op. case op of Write n row \<Rightarrow> Some IOError | _ \<Rightarrow> None)"
  let ?n = "csv_name 7 1700000000"
  let ?cs = "[(File_op (Open ?n), None), (File_op (Write ?n header_row), Some IOError),
              (File_op (Close ?n), None)]"
  let ?cs' = "?cs @ [(Update_order_status 1 ''export_failed'' ''high'', None)]"
  have p: "process_type_a_order ?svc 1 7 demo_world =
             (fst (process_type_a_order ?svc 1 7 demo_world), snd (process_type_a_order ?svc 1 7 demo_world))"
    by simp
  have c: "calls (snd (process_type_a_order ?svc 1 7 demo_world)) = calls demo_world @ ?cs"
    by (simp add: eval_defs py_gt_def)
  have m: "(File_op (Write ?n header_row), Some IOError) \<in> set ?cs" by simp
  have n: "\<forall>c\<in>set ?cs. snd c = None \<or> snd c = Some IOError" by simp
  have p': "process_order ?svc 1 7 demo_world =
             (fst (process_order ?svc 1 7 demo_world), snd (process_order ?svc 1 7 demo_world))"
    by simp
  have c': "calls (snd (process_order ?svc 1 7 demo_world)) = calls demo_world @ ?cs'"
    by (simp add: eval_defs py_gt_def)
  have ty: "type' (heap demo_world 1) = ''A''" by (simp add: demo_world_def demo_heap_def Order_init_def)
  have m': "(File_op (Write ?n header_row), Some IOError) \<in> set ?cs'" by simp
  have n': "\<forall>c\<in>set ?cs'. snd c = None \<or> (\<exists>op'. c = (File_op op', Some IOError))" by simp
  have cl: "classified ?svc"
    by (auto simp: classified_def demo_services_def split: io_op.splits)
  have ef: "export_always_fails ?svc" by (simp add: export_always_fails_def demo_services_def)
  have nr: "update_never_raises ?svc" by (simp add: update_never_raises_def demo_services_def)
  have f: "db_get_orders_by_user ?svc 7 (ext demo_world) = (Inr [1, 3], ())"
    by (simp add: demo_services_def)
  have ne: "[1, 3 :: ref] \<noteq> []" by simp
  have in1: "(1::ref) \<in> set [1, 3]" by simp
  note th = export_failure_is_local[of ?svc 1 7 demo_world "fst (process_type_a_order ?svc 1 7 demo_world)"
      "snd (process_type_a_order ?svc 1 7 demo_world)" ?cs "Write ?n header_row" "[1, 3]" "()"]
  note th' = export_failure_is_local[of ?svc 1 7 demo_world "fst (process_order ?svc 1 7 demo_world)"
      "snd (process_order ?svc 1 7 demo_world)" ?cs' "Write ?n header_row" "[1, 3]" "()"]
  have 1: "status (heap (snd (process_type_a_order ?svc 1 7 demo_world)) 1) = ''export_failed''"
    using th p c m n by blast
  have 2: "last (calls (snd (process_order ?svc 1 7 demo_world)))
             = (Update_order_status 1 ''export_failed'' ''high'', None)"
    using c' by simp
  have 5: "status (heap (snd (process_order ?svc 1 7 demo_world)) 1) = ''export_failed''"
    using th' p' c' ty m' n' by blast
  have 3: "fst (process_orders ?svc 7 demo_world) = True" using th cl f ne by blast
  have 4: "status (heap (snd (process_orders ?svc 7 demo_world)) 1) = ''export_failed''"
    using th' cl f ne ef nr in1 ty by blast
  show ?thesis using 1 2 3 4 5 by simp
qed

text \<open>
  C8. When the fetch raises, whatever the exception, and when it returns the empty list,
  \<open>process_orders\<close> returns \<open>False\<close>; the heap of orders and the files are as before, and
  the fetch is the only call made to a collaborator.
\<close>

theorem fetch_failure_or_empty_returns_false:
  assumes "db_get_orders_by_user svc user_id (ext w) = (out, e1)"
    and "out = Inr [] \<or> (\<exists>x. out = Inl x)"
  shows "process_orders svc user_id w =
           (False, w\<lparr>ext := e1,
                     calls := calls w @ [(Get_orders_by_user user_id,
                                          case out of Inl x \<Rightarrow> Some x | Inr _ \<Rightarrow> None)]\<rparr>)"
  using assms
  by (auto simp: process_orders_def invoke_def)

theorem fetch_failure_or_empty_returns_false_witness:
  "process_orders (demo_services (Inr []) (Inl APIException) (Inr True) (\<lambda>op. None)) 7 demo_world
     = (False, demo_world\<lparr>calls := [(Get_orders_by_user 7, None)]\<rparr>)
   \<and> process_orders (demo_services (Inl DatabaseException) (Inl APIException) (Inr True) (\<lambda>op. None)) 7 demo_world
     = (False, demo_world\<lparr>calls := [(Get_orders_by_user 7, Some DatabaseException)]\<rparr>)
   \<and> process_orders (demo_services (Inl OtherException) (Inl APIException) (Inr True) (\<lambda>op. None)) 7 demo_world
     = (False, demo_world\<lparr>calls := [(Get_orders_by_user 7, Some OtherException)]\<rparr>)"
  using
    fetch_failure_or_empty_returns_false[of
      "demo_services (Inr []) (Inl APIException) (Inr True) (\<lambda>op. None)" 7 demo_world "Inr []" "()"]
    fetch_failure_or_empty_returns_false[of
      "demo_services (Inl DatabaseException) (Inl APIException) (Inr True) (\<lambda>op. None)" 7 demo_world
      "Inl DatabaseException" "()"]
    fetch_failure_or_empty_returns_false[of
      "demo_services (Inl OtherException) (Inl APIException) (Inr True) (\<lambda>op. None)" 7 demo_world
      "Inl OtherException" "()"]
  by (simp add: demo_services_def demo_world_def)

text \<open>
  C9. The persistence step drops the boolean that \<open>update_order_status\<close> returns: the heap
  changes, to status \<open>db_error\<close>, only when \<open>DatabaseException\<close> is raised. So when the call
  returns \<open>False\<close> the step completes and the status of the order is as before.
\<close>

theorem update_result_ignored:
  assumes "db_update_order_status svc (id' (heap w a)) (status (heap w a)) (priority (heap w a)) (ext w)
             = (out, e1)"
  shows "heap (snd (update_order_status svc a w)) =
           (if out = Inl DatabaseException
            then (heap w)(a := (heap w a)\<lparr>status := ''db_error''\<rparr>) else heap w)
       \<and> (out = Inr False \<longrightarrow>
            fst (update_order_status svc a w) = None
            \<and> status (heap (snd (update_order_status svc a w)) a) = status (heap w a))"
  using assms
  by (auto simp: update_order_status_def try_except_def invoke_def set_status_def
           split: sum.splits)

theorem update_result_ignored_witness:
  "fst (update_order_status
      (demo_services (Inr [3]) (Inl APIException) (Inr False) (\<lambda>op. None))
      3 (snd (process_type_c_order 3 demo_world))) = None
   \<and> status (heap (snd (update_order_status
      (demo_services (Inr [3]) (Inl APIException) (Inr False) (\<lambda>op. None))
      3 (snd (process_type_c_order 3 demo_world)))) 3) = ''completed''"
  using
    update_result_ignored[of
      "demo_services (Inr [3]) (Inl APIException) (Inr False) (\<lambda>op. None)"
      "snd (process_type_c_order 3 demo_world)" 3 "Inr False" "()"]
  by (simp add: demo_services_def demo_world_def demo_heap_def Order_init_def
       process_type_c_order_def set_status_def)

text \<open>
  C10. The pipeline of an order, and so a whole call of \<open>process_orders\<close>, leaves the id,
  type, amount and flag of every order as they were: only status and priority change.
\<close>

theorem pipeline_keeps_order_fields:
  "id' (heap (snd (process_order svc a user_id w)) b) = id' (heap w b)
   \<and> type' (heap (snd (process_order svc a user_id w)) b) = type' (heap w b)
   \<and> amount (heap (snd (process_order svc a user_id w)) b) = amount (heap w b)
   \<and> flag (heap (snd (process_order svc a user_id w)) b) = flag (heap w b)
   \<and> id' (heap (snd (process_orders svc user_id w)) b) = id' (heap w b)
   \<and> type' (heap (snd (process_orders svc user_id w)) b) = type' (heap w b)
   \<and> amount (heap (snd (process_orders svc user_id w)) b) = amount (heap w b)
   \<and> flag (heap (snd (process_orders svc user_id w)) b) = flag (heap w b)"
proof -
  obtain r w1 where p: "process_order svc a user_id w = (r, w1)"
    by (cases "process_order svc a user_id w")
  from process_order_result[OF p] obtain s pr where
    "heap w1 = (heap w)(a := (heap w a)\<lparr>status := s, priority := pr\<rparr>)" by blast
  then have 1: "same_fields (heap w) (heap w1)" using same_fields_upd by simp
  obtain bb w2 where q: "process_orders svc user_id w = (bb, w2)"
    by (cases "process_orders svc user_id w")
  obtain out e1 where f: "db_get_orders_by_user svc user_id (ext w) = (out, e1)"
    by (cases "db_get_orders_by_user svc user_id (ext w)")
  have 2: "same_fields (heap w) (heap w2)" using process_orders_result(1)[OF q f] .
  show ?thesis using 1 2 p q by (simp add: same_fields_def)
qed

end
